theory Spec2Isabelle
  imports Complex_Main
begin

section \<open>Data shared by the two programs\<close>

text \<open>
  The repository holds two command-line BLE centrals: \<^verbatim>\<open>src/central.js\<close> (the Blinky
  profile) and \<^verbatim>\<open>src/unnamed/part_000\<close> (the Nordic UART profile, NUS). Both drive an
  external adapter object by request/callback calls and react to the events it emits.

  The adapter is outside the repository. It is modelled by the answers it gives: a record
  of functions from the arguments of a request to what its callback receives. An error
  handed to a callback (\<^verbatim>\<open>err\<close>) is tested by the code for truthiness only, so an
  answer is \<open>None\<close>/\<open>Inr\<close> when \<^verbatim>\<open>err\<close> is falsy and \<open>Some e\<close>/\<open>Inl e\<close>
  when it is truthy, \<open>e\<close> being the text \<^verbatim>\<open>${err}\<close> interpolates.

  Every callback is taken to run to completion when its request is answered, before the
  next event is handled; what a handler does is the sequence of effects it causes, in
  order: adapter requests, console lines, and at most one final \<^verbatim>\<open>process.exit\<close>.
  A request records the values of its arguments at the time of the call; for the array
  handed to \<^verbatim>\<open>writeDescriptorValue\<close> that is the content the array has then.

  Left out, as they touch neither the adapter nor the notification state: the validation
  of the command-line arguments and the help text, the configuration of standard input
  (\<^verbatim>\<open>setEncoding\<close>, \<^verbatim>\<open>setRawMode\<close>), and \<^verbatim>\<open>addUserPrompt\<close> of the UART file, a
  blocking prompt loop that is never called.
\<close>

type_synonym err = string

text \<open>A service, characteristic or descriptor as the adapter reports it.\<close>

record attribute =
  instanceId :: string
  uuid :: string

record device =
  device_instanceId :: string
  address :: string
  addressType :: string
  name :: string

record scan_params =
  active :: bool
  interval :: nat
  window :: nat
  timeout :: nat

text \<open>
  Connection parameters are a plain JavaScript object: the field names with their
  numbers, in the order the literal lists them.
\<close>

type_synonym conn_params = "(string \<times> rat) list"

record connect_options =
  scanParams :: scan_params
  connParams :: conn_params

record open_options =
  baudRate :: nat
  logLevel :: string

datatype request =
    Open open_options
  | Close
  | StartScan scan_params
  | Connect string connect_options
  | GetServices string
  | GetCharacteristics string
  | GetDescriptors string
  | WriteDescriptorValue string "nat list" bool
  | UpdateConnectionParameters string conn_params

text \<open>
  A template literal is the list of its parts: literal text and interpolated values.
  \<open>J\<close> parts are the ones the source passes through \<^verbatim>\<open>JSON.stringify\<close>.
\<close>

datatype part =
    S string
  | N nat
  | E err
  | JE err
  | JP conn_params
  | V "nat list"

datatype error = Error "part list"

datatype log_entry = Line "part list" | Logged error

datatype effect = Call request | Log log_entry | Exit int

record adapter =
  adapter_instanceId :: string
  open_result :: "open_options \<Rightarrow> err option"
  close_result :: "err option"
  startScan_result :: "scan_params \<Rightarrow> err option"
  connect_result :: "string \<Rightarrow> connect_options \<Rightarrow> err option"
  getServices_result :: "string \<Rightarrow> err + attribute list"
  getCharacteristics_result :: "string \<Rightarrow> err + attribute list"
  getDescriptors_result :: "string \<Rightarrow> err + attribute list"
  writeDescriptorValue_result :: "string \<Rightarrow> nat list \<Rightarrow> bool \<Rightarrow> err option"
  updateConnectionParameters_result :: "string \<Rightarrow> conn_params \<Rightarrow> err option"

datatype event =
    LogMessage nat string
  | AdapterError err
  | DeviceConnected device
  | DeviceDisconnected device
  | DeviceDiscovered device
  | ScanTimedOut
  | CharacteristicValueChanged string "nat list"
  | ConnParamUpdateRequest device conn_params
  | ConnParamUpdate device conn_params

text \<open>The adapter requests among the effects of a handler, in order.\<close>

fun calls :: "effect list \<Rightarrow> request list" where
  "calls [] = []"
| "calls (Call r # t) = r # calls t"
| "calls (_ # t) = calls t"

fun logged :: "effect list \<Rightarrow> log_entry list" where
  "logged [] = []"
| "logged (Log l # t) = l # logged t"
| "logged (_ # t) = logged t"

fun exit_code :: "effect list \<Rightarrow> int option" where
  "exit_code [] = None"
| "exit_code (Exit c # t) = Some c"
| "exit_code (_ # t) = exit_code t"

subsection \<open>Promises\<close>

text \<open>
  A promise that has settled: the effects caused until then, and the rejection
  (\<open>Inl\<close>) or the value it resolved with (\<open>Inr\<close>). \<^verbatim>\<open>p.then(f)\<close> runs \<open>f\<close> on the
  value of a resolved \<open>p\<close> and passes a rejection through.
\<close>

type_synonym 'a promise = "effect list \<times> (error + 'a)"

definition then_promise :: "'a promise \<Rightarrow> ('a \<Rightarrow> 'b promise) \<Rightarrow> 'b promise" where
  "then_promise p f =
     (case p of
        (t, Inl e) \<Rightarrow> (t, Inl e)
      | (t, Inr x) \<Rightarrow> (case f x of (t', r) \<Rightarrow> (t @ t', r)))"

text \<open>
  The loop \<^verbatim>\<open>for (const k in xs) if (xs[k].uuid === u) { resolve(xs[k]); return; }\<close>
  that every discovery step runs over the adapter's answer.
\<close>

fun first_with_uuid :: "string \<Rightarrow> attribute list \<Rightarrow> attribute option" where
  "first_with_uuid u [] = None"
| "first_with_uuid u (x # xs) = (if uuid x = u then Some x else first_with_uuid u xs)"

subsection \<open>The notification array\<close>

text \<open>
  \<^verbatim>\<open>notificationsEnabled\<close> is a JavaScript array of numbers. Reading index 0 of an
  empty array gives \<^verbatim>\<open>undefined\<close> (falsy); a number is truthy when it is not 0; writing
  index 0 of an empty array extends it.
\<close>

fun truthy0 :: "nat list \<Rightarrow> bool" where
  "truthy0 [] = False"
| "truthy0 (x # xs) = (x \<noteq> 0)"

fun set0 :: "nat list \<Rightarrow> nat \<Rightarrow> nat list" where
  "set0 [] v = [v]"
| "set0 (x # xs) v = v # xs"

text \<open>\<^verbatim>\<open>chunk[0]\<close> of a string: its first character, \<^verbatim>\<open>undefined\<close> when it is empty.\<close>

fun first_char :: "string \<Rightarrow> char option" where
  "first_char [] = None"
| "first_char (c # cs) = Some c"

section \<open>src/central.js: the Blinky central\<close>

definition BLE_UUID_BLINKY_SERVICE :: string where
  "BLE_UUID_BLINKY_SERVICE = ''000015231212EFDE1523785FEABCD123''"

definition LBS_UUID_BLINKY_BUTTON_CHAR :: string where
  "LBS_UUID_BLINKY_BUTTON_CHAR = ''000015241212EFDE1523785FEABCD123''"

definition LBS_UUID_BLINKY_LED_CHAR :: string where
  "LBS_UUID_BLINKY_LED_CHAR = ''000015251212EFDE1523785FEABCD123''"

definition BLE_UUID_CCCD :: string where
  "BLE_UUID_CCCD = ''2902''"

definition discoverBlinkyService :: "adapter \<Rightarrow> device \<Rightarrow> attribute promise" where
  "discoverBlinkyService ad dev =
     ([Call (GetServices (device_instanceId dev))],
      (case getServices_result ad (device_instanceId dev) of
         Inl e \<Rightarrow> Inl (Error [S ''Error discovering the blinky service: '', E e, S ''.''])
       | Inr services \<Rightarrow>
           (case first_with_uuid BLE_UUID_BLINKY_SERVICE services of
              Some s \<Rightarrow> Inr s
            | None \<Rightarrow> Inl (Error
                [S ''Did not discover the blinky service in peripheral's GATT attribute table.'']))))"

definition discoverButtonCharacteristic :: "adapter \<Rightarrow> attribute \<Rightarrow> attribute promise" where
  "discoverButtonCharacteristic ad blinkyService =
     ([Call (GetCharacteristics (instanceId blinkyService))],
      (case getCharacteristics_result ad (instanceId blinkyService) of
         Inl e \<Rightarrow> Inl (Error
           [S ''Error discovering the blinky service's characteristics: '', E e, S ''.''])
       | Inr characteristics \<Rightarrow>
           (case first_with_uuid LBS_UUID_BLINKY_BUTTON_CHAR characteristics of
              Some c \<Rightarrow> Inr c
            | None \<Rightarrow> Inl (Error
                [S ''Did not discover the blinky button char in peripheral's GATT attribute table.'']))))"

definition discoverButtonCharCCCD :: "adapter \<Rightarrow> attribute \<Rightarrow> attribute promise" where
  "discoverButtonCharCCCD ad blinkyButtonCharacteristic =
     ([Call (GetDescriptors (instanceId blinkyButtonCharacteristic))],
      (case getDescriptors_result ad (instanceId blinkyButtonCharacteristic) of
         Inl e \<Rightarrow> Inl (Error
           [S ''Error discovering the blinky characteristic's CCCD: '', E e, S ''.''])
       | Inr descriptors \<Rightarrow>
           (case first_with_uuid BLE_UUID_CCCD descriptors of
              Some d \<Rightarrow> Inr d
            | None \<Rightarrow> Inl (Error
                [S ''Did not discover the blinky chars CCCD in peripheral's GATT attribute table.'']))))"

text \<open>
  \<^verbatim>\<open>console.log(l); return p\<close> at the head of a \<^verbatim>\<open>then\<close> callback.
\<close>

definition after_log :: "part list \<Rightarrow> 'a promise \<Rightarrow> 'a promise" where
  "after_log l p = (Log (Line l) # fst p, snd p)"

text \<open>
  \<^verbatim>\<open>addUserInputListener\<close> creates a fresh array \<^verbatim>\<open>[0, 0]\<close> and registers a
  \<^verbatim>\<open>readable\<close> callback on standard input that closes over it and over the descriptor.
  A registered callback is the pair of the two; \<open>readable_blinky\<close> is its body, run on
  what \<^verbatim>\<open>process.stdin.read()\<close> returned (\<open>None\<close> for \<^verbatim>\<open>null\<close>).
\<close>

record listener =
  cccdDescriptor :: attribute
  notificationsEnabled :: "nat list"

definition addUserInputListener_blinky :: "attribute \<Rightarrow> listener" where
  "addUserInputListener_blinky descriptor =
     \<lparr>cccdDescriptor = descriptor, notificationsEnabled = [0, 0]\<rparr>"

definition readable_blinky :: "adapter \<Rightarrow> listener \<Rightarrow> string option \<Rightarrow> listener \<times> effect list" where
  "readable_blinky ad l chunk =
     (case chunk of
        None \<Rightarrow> (l, [])
      | Some c \<Rightarrow>
          if first_char c = Some CHR ''q'' \<or> first_char c = Some CHR ''Q'' then
            (l, Call Close #
                (case close_result ad of
                   Some e \<Rightarrow> [Log (Line [S ''Error closing the adapter: '', E e, S ''.''])]
                 | None \<Rightarrow> []) @
                [Log (Line [S ''Exiting the application...'']), Exit 1])
          else if first_char c = Some CHR ''l'' \<or> first_char c = Some CHR ''L'' then
            (l, [])
          else
            (let ne = (if truthy0 (notificationsEnabled l)
                       then set0 (notificationsEnabled l) 0
                       else set0 (notificationsEnabled l) 1)
             in (l\<lparr>notificationsEnabled := ne\<rparr>,
                 [Log (Line [S (if truthy0 (notificationsEnabled l)
                     then ''Disabling notifications on the blinky button characteristic.''
                     else ''Enabling notifications on the blinky button characteristic.'')]),
                  Call (WriteDescriptorValue (instanceId (cccdDescriptor l)) ne False)] @
                 (case writeDescriptorValue_result ad (instanceId (cccdDescriptor l)) ne False of
                    Some e \<Rightarrow>
                      [Log (Line [S ''Error enabling notifications on the blinky button characteristic: '',
                                  E e, S ''.'']),
                       Exit 1]
                  | None \<Rightarrow>
                      [Log (Line [S ''Notifications toggled on the blinky button characteristic.''])]))))"

definition connect_blinky :: "adapter \<Rightarrow> string \<Rightarrow> unit promise" where
  "connect_blinky ad connectToAddress =
     (let options =
        \<lparr>scanParams = \<lparr>active = False, interval = 100, window = 50, timeout = 0\<rparr>,
         connParams =
           [(''min_conn_interval'', 7.5),
            (''max_conn_interval'', 300),
            (''slave_latency'', 0),
            (''conn_sup_timeout'', 4000)]\<rparr>
      in ([Log (Line [S ''Connecting to device '', S connectToAddress, S ''...'']),
           Call (Connect connectToAddress options)],
          (case connect_result ad connectToAddress options of
             Some e \<Rightarrow> Inl (Error [S ''Error connecting to target device: '', E e, S ''.''])
           | None \<Rightarrow> Inr ())))"

definition startScan_blinky :: "adapter \<Rightarrow> unit promise" where
  "startScan_blinky ad =
     (let scanParameters = \<lparr>active = True, interval = 100, window = 50, timeout = 0\<rparr>
      in ([Log (Line [S ''Started scanning...'']), Call (StartScan scanParameters)],
          (case startScan_result ad scanParameters of
             Some e \<Rightarrow> Inl (Error [S ''Error starting scanning: '', E e, S ''.''])
           | None \<Rightarrow> Inr ())))"

text \<open>
  The handlers \<^verbatim>\<open>addAdapterListener\<close> registers, one definition each. The state of the
  program is the list of \<^verbatim>\<open>readable\<close> callbacks registered so far.
\<close>

definition deviceConnected_blinky ::
    "adapter \<Rightarrow> listener list \<Rightarrow> device \<Rightarrow> listener list \<times> effect list" where
  "deviceConnected_blinky ad ls dev =
     (case then_promise (discoverBlinkyService ad dev) (\<lambda>service.
             after_log [S ''Discovered the blinky service.'']
               (then_promise
                  (then_promise (discoverButtonCharacteristic ad service) (\<lambda>characteristic.
                     after_log [S ''Discovered the blinky button characteristic.'']
                       (discoverButtonCharCCCD ad characteristic)))
                  (\<lambda>descriptor.
                     ([Log (Line [S ''Discovered the blinky button characteristic's CCCD.'']),
                       Log (Line [S ''Press any key to toggle notifications on the button characteristic.'']),
                       Log (Line [S ''Press `l` or `L` to toggle LED on and off.'']),
                       Log (Line [S ''Press `q` or `Q` to disconnect from the BLE peripheral and quit application.''])],
                      Inr descriptor)))) of
        (t, Inr descriptor) \<Rightarrow>
          (ls @ [addUserInputListener_blinky descriptor],
           Log (Line [S ''Device '', S (address dev), S ''/'', S (addressType dev), S '' connected.'']) # t)
      | (t, Inl error) \<Rightarrow>
          (ls,
           Log (Line [S ''Device '', S (address dev), S ''/'', S (addressType dev), S '' connected.'']) # t @
           [Log (Logged error), Exit 1]))"

definition deviceDisconnected_blinky :: "adapter \<Rightarrow> device \<Rightarrow> effect list" where
  "deviceDisconnected_blinky ad dev =
     Log (Line [S ''Device '', S (address dev), S '' disconnected.'']) #
     (case startScan_blinky ad of
        (t, Inr _) \<Rightarrow> t @ [Log (Line [S ''Successfully initiated the scanning procedure.''])]
      | (t, Inl error) \<Rightarrow> t @ [Log (Logged error)])"

definition deviceDiscovered_blinky :: "adapter \<Rightarrow> device \<Rightarrow> effect list" where
  "deviceDiscovered_blinky ad dev =
     (if name dev = ''Nordic_Blinky'' then
        Log (Line [S ''Discovered device '', S (address dev), S ''/'', S (addressType dev), S ''.'']) #
        (case connect_blinky ad (address dev) of
           (t, Inr _) \<Rightarrow> t
         | (t, Inl error) \<Rightarrow> t @ [Log (Logged error), Exit 1])
      else [])"

text \<open>
  The dispatch of an adapter event to the handler registered for it. The file registers
  none for \<^verbatim>\<open>connParamUpdateRequest\<close> and \<^verbatim>\<open>connParamUpdate\<close>: emitting them runs no
  code of the program. The value of a changed characteristic is an array of bytes, and
  \<^verbatim>\<open>+attribute.value === 1\<close> holds exactly for the array \<^verbatim>\<open>[1]\<close>.
\<close>

fun addAdapterListener_blinky ::
    "adapter \<Rightarrow> listener list \<Rightarrow> event \<Rightarrow> listener list \<times> effect list" where
  "addAdapterListener_blinky ad ls (LogMessage severity message) =
     (ls, if severity > 3 then [Log (Line [S ''LOG '', N severity, S '' '', S message])] else [])"
| "addAdapterListener_blinky ad ls (AdapterError error) =
     (ls, [Log (Line [S ''error: '', JE error, S ''.''])])"
| "addAdapterListener_blinky ad ls (DeviceConnected dev) = deviceConnected_blinky ad ls dev"
| "addAdapterListener_blinky ad ls (DeviceDisconnected dev) = (ls, deviceDisconnected_blinky ad dev)"
| "addAdapterListener_blinky ad ls (DeviceDiscovered dev) = (ls, deviceDiscovered_blinky ad dev)"
| "addAdapterListener_blinky ad ls ScanTimedOut =
     (ls, [Log (Line [S ''scanTimedOut: Scanning timed-out. Exiting.'']), Exit 1])"
| "addAdapterListener_blinky ad ls (CharacteristicValueChanged u v) =
     (ls, if u = LBS_UUID_BLINKY_BUTTON_CHAR
          then [Log (Line [S ''Received blinky button: '', S (if v = [1] then ''ON'' else ''OFF''), S ''.''])]
          else [])"
| "addAdapterListener_blinky ad ls (ConnParamUpdateRequest dev ps) = (ls, [])"
| "addAdapterListener_blinky ad ls (ConnParamUpdate dev ps) = (ls, [])"

definition openAdapter_blinky :: "adapter \<Rightarrow> unit promise" where
  "openAdapter_blinky ad =
     (let options = \<lparr>baudRate = 1000000, logLevel = ''error''\<rparr>
      in ([Log (Line [S ''Opening adapter with ID: '', S (adapter_instanceId ad),
                      S '' and baud rate: '', N 1000000, S ''...'']),
           Call (Open options)],
          (case open_result ad options of
             Some e \<Rightarrow> Inl (Error [S ''Error opening adapter: '', E e, S ''.''])
           | None \<Rightarrow> Inr ())))"

text \<open>
  The main entry once the two command-line arguments have been accepted: open the
  adapter, then start the scan; any rejection is logged and ends the process with -1.
\<close>

definition main_blinky :: "adapter \<Rightarrow> effect list" where
  "main_blinky ad =
     (case then_promise
             (then_promise (openAdapter_blinky ad) (\<lambda>_.
                after_log [S ''Opened adapter.''] (startScan_blinky ad)))
             (\<lambda>_. ([Log (Line [S ''Scanning.''])], Inr ())) of
        (t, Inr _) \<Rightarrow> t
      | (t, Inl error) \<Rightarrow> t @ [Log (Logged error), Exit (- 1)])"

section \<open>src/unnamed/part_000: the Nordic UART central\<close>

definition BLE_DEVICE_NAME :: string where
  "BLE_DEVICE_NAME = ''Nordic_UART''"

definition BLE_UUID_NUS_SERVICE :: string where
  "BLE_UUID_NUS_SERVICE = ''6E400001B5A3F393E0A9E50E24DCCA9E''"

definition LBS_UUID_NUS_TX_CHAR :: string where
  "LBS_UUID_NUS_TX_CHAR = ''6E400003B5A3F393E0A9E50E24DCCA9E''"

definition LBS_UUID_NUS_RX_CHAR :: string where
  "LBS_UUID_NUS_RX_CHAR = ''6E400002B5A3F393E0A9E50E24DCCA9E''"

text \<open>
  The module-level array \<^verbatim>\<open>const notificationsEnabled = [1, 0]\<close>: its value when the
  module has loaded. The functions below take the current value and return the new one.
\<close>

definition notificationsEnabled_init :: "nat list" where
  "notificationsEnabled_init = [1, 0]"

definition connectionsPararms :: conn_params where
  "connectionsPararms =
     [(''min_conn_interval'', 7.5),
      (''minConnectionInterval'', 7.5),
      (''max_conn_interval'', 300),
      (''maxConnectionInterval'', 300),
      (''slave_latency'', 0),
      (''slaveLatency'', 0),
      (''conn_sup_timeout'', 4000),
      (''connectionSupervisionTimeout'', 4000)]"

definition discoverNusService :: "adapter \<Rightarrow> device \<Rightarrow> attribute promise" where
  "discoverNusService ad dev =
     ([Call (GetServices (device_instanceId dev))],
      (case getServices_result ad (device_instanceId dev) of
         Inl e \<Rightarrow> Inl (Error [S ''Error discovering the NUS service: '', E e, S ''.''])
       | Inr services \<Rightarrow>
           (case first_with_uuid BLE_UUID_NUS_SERVICE services of
              Some s \<Rightarrow> Inr s
            | None \<Rightarrow> Inl (Error
                [S ''Did not discover the NUS service in peripheral's GATT attribute table.'']))))"

definition discoverTxCharacteristic :: "adapter \<Rightarrow> attribute \<Rightarrow> attribute promise" where
  "discoverTxCharacteristic ad NusService =
     ([Call (GetCharacteristics (instanceId NusService))],
      (case getCharacteristics_result ad (instanceId NusService) of
         Inl e \<Rightarrow> Inl (Error
           [S ''Error discovering the NUS service's characteristics: '', JE e, S ''.''])
       | Inr characteristics \<Rightarrow>
           (case first_with_uuid LBS_UUID_NUS_TX_CHAR characteristics of
              Some c \<Rightarrow> Inr c
            | None \<Rightarrow> Inl (Error
                [S ''Did not discover the NUS TX char in peripheral's GATT attribute table.'']))))"

definition discoverTxCharCCCD :: "adapter \<Rightarrow> attribute \<Rightarrow> attribute promise" where
  "discoverTxCharCCCD ad NusTxCharacteristic =
     ([Call (GetDescriptors (instanceId NusTxCharacteristic))],
      (case getDescriptors_result ad (instanceId NusTxCharacteristic) of
         Inl e \<Rightarrow> Inl (Error
           [S ''Error discovering the NUS characteristic's CCCD: '', JE e, S ''.''])
       | Inr descriptors \<Rightarrow>
           (case first_with_uuid BLE_UUID_CCCD descriptors of
              Some d \<Rightarrow> Inr d
            | None \<Rightarrow> Inl (Error
                [S ''Did not discover the NUS chars CCCD in peripheral's GATT attribute table.'']))))"

text \<open>
  The body of the \<^verbatim>\<open>readable\<close> callback of \<^verbatim>\<open>addUserInputListener\<close>, on the current
  value of the module-level array. The file defines \<^verbatim>\<open>addUserInputListener\<close> and
  \<^verbatim>\<open>addUserPrompt\<close> and calls neither: both calls are commented out in
  \<^verbatim>\<open>handleConnectedDevice\<close>.
\<close>

definition readable_nus ::
    "adapter \<Rightarrow> attribute \<Rightarrow> nat list \<Rightarrow> string option \<Rightarrow> nat list \<times> effect list" where
  "readable_nus ad cccd ne0 chunk =
     (case chunk of
        None \<Rightarrow> (ne0, [])
      | Some c \<Rightarrow>
          if first_char c = Some CHR ''q'' \<or> first_char c = Some CHR ''Q'' then
            (ne0, Call Close #
                (case close_result ad of
                   Some e \<Rightarrow> [Log (Line [S ''Error closing the adapter: '', E e, S ''.''])]
                 | None \<Rightarrow> []) @
                [Log (Line [S ''Exiting the application...'']), Exit 1])
          else
            (let ne = (if truthy0 ne0 then set0 ne0 0 else set0 ne0 1)
             in (ne,
                 [Log (Line [S (if truthy0 ne0
                     then ''Disabling notifications on the NUS TX characteristic.''
                     else ''Enabling notifications on the NUS TX characteristic.'')]),
                  Call (WriteDescriptorValue (instanceId cccd) ne False)] @
                 (case writeDescriptorValue_result ad (instanceId cccd) ne False of
                    Some e \<Rightarrow>
                      [Log (Line [S ''Error enabling notifications on the NUS TX characteristic: '',
                                  E e, S ''.'']),
                       Exit 1]
                  | None \<Rightarrow>
                      [Log (Line [S ''Notifications toggled on the NUS TX characteristic.''])]))))"

definition connect_nus :: "adapter \<Rightarrow> string \<Rightarrow> unit promise" where
  "connect_nus ad connectToAddress =
     (let options =
        \<lparr>scanParams = \<lparr>active = False, interval = 100, window = 50, timeout = 0\<rparr>,
         connParams = connectionsPararms\<rparr>
      in ([Log (Line [S ''Connecting to device '', S connectToAddress, S ''...'']),
           Call (Connect connectToAddress options)],
          (case connect_result ad connectToAddress options of
             Some e \<Rightarrow> Inl (Error [S ''Error connecting to target device: '', E e, S ''.''])
           | None \<Rightarrow> Inr ())))"

definition startScan_nus :: "adapter \<Rightarrow> unit promise" where
  "startScan_nus ad =
     (let scanParameters = \<lparr>active = True, interval = 100, window = 50, timeout = 0\<rparr>
      in ([Log (Line [S ''Started scanning...'']), Call (StartScan scanParameters)],
          (case startScan_result ad scanParameters of
             Some e \<Rightarrow> Inl (Error [S ''Error starting scanning: '', E e, S ''.''])
           | None \<Rightarrow> Inr ())))"

text \<open>
  \<^verbatim>\<open>handleConnectedDevice\<close> reads the module-level array and does not assign to it.
  The last \<^verbatim>\<open>then\<close> callback issues the write and returns; the write's own callback
  logs, and exits on an error.
\<close>

definition handleConnectedDevice :: "adapter \<Rightarrow> nat list \<Rightarrow> device \<Rightarrow> effect list" where
  "handleConnectedDevice ad ne dev =
     (case then_promise (discoverNusService ad dev) (\<lambda>service.
             after_log [S ''Discovered the NUS service.'']
               (then_promise
                  (then_promise (discoverTxCharacteristic ad service) (\<lambda>characteristic.
                     after_log [S ''Discovered the NUS TX characteristic.'']
                       (discoverTxCharCCCD ad characteristic)))
                  (\<lambda>descriptor.
                     ([Log (Line [S ''Discovered the NUS TX characteristic's CCCD.'']),
                       Log (Line [S ''Enabling notifications on the NUS TX characteristic.'']),
                       Call (WriteDescriptorValue (instanceId descriptor) ne False)] @
                      (case writeDescriptorValue_result ad (instanceId descriptor) ne False of
                         Some e \<Rightarrow>
                           [Log (Line [S ''Error enabling notifications on the NUS TX characteristic: '',
                                       E e, S ''.'']),
                            Exit 1]
                       | None \<Rightarrow>
                           [Log (Line [S ''Notifications toggled on the NUS TX characteristic.''])]),
                      Inr ())))) of
        (t, Inr _) \<Rightarrow> t
      | (t, Inl error) \<Rightarrow> t @ [Log (Logged error), Exit 1])"

definition deviceDisconnected_nus :: "adapter \<Rightarrow> device \<Rightarrow> effect list" where
  "deviceDisconnected_nus ad dev =
     Log (Line [S ''Device '', S (address dev), S '' disconnected.'']) #
     (case startScan_nus ad of
        (t, Inr _) \<Rightarrow> t @ [Log (Line [S ''Successfully initiated the scanning procedure.''])]
      | (t, Inl error) \<Rightarrow> t @ [Log (Logged error)])"

definition deviceDiscovered_nus :: "adapter \<Rightarrow> device \<Rightarrow> effect list" where
  "deviceDiscovered_nus ad dev =
     (if name dev = BLE_DEVICE_NAME then
        Log (Line [S ''Discovered device '', S (address dev), S ''/'', S (addressType dev), S ''.'']) #
        (case connect_nus ad (address dev) of
           (t, Inr _) \<Rightarrow> t
         | (t, Inl error) \<Rightarrow> t @ [Log (Logged error), Exit 1])
      else [])"

definition connParamUpdateRequest_nus ::
    "adapter \<Rightarrow> nat list \<Rightarrow> device \<Rightarrow> conn_params \<Rightarrow> effect list" where
  "connParamUpdateRequest_nus ad ne dev connectionParameters =
     [Log (Line [S ''connParamUpdateRequest: '', JP connectionParameters, S ''.'']),
      Call (UpdateConnectionParameters (device_instanceId dev) connectionParameters)] @
     (case updateConnectionParameters_result ad (device_instanceId dev) connectionParameters of
        Some e \<Rightarrow> [Log (Line [S ''updateConnectionParameters Failed: '', E e, S ''.''])]
      | None \<Rightarrow> handleConnectedDevice ad ne dev)"

text \<open>
  The dispatch of an adapter event to the handler registered for it; the state is the
  module-level array, which no registered handler assigns to.
\<close>

fun addAdapterListener_nus ::
    "adapter \<Rightarrow> nat list \<Rightarrow> event \<Rightarrow> nat list \<times> effect list" where
  "addAdapterListener_nus ad ne (LogMessage severity message) =
     (ne, if severity > 3 then [Log (Line [S ''LOG '', N severity, S '' '', S message])] else [])"
| "addAdapterListener_nus ad ne (AdapterError error) =
     (ne, [Log (Line [S ''error: '', JE error, S ''.''])])"
| "addAdapterListener_nus ad ne (DeviceConnected dev) =
     (ne, [Log (Line [S ''Device '', S (address dev), S ''/'', S (addressType dev), S '' connected.''])])"
| "addAdapterListener_nus ad ne (DeviceDisconnected dev) = (ne, deviceDisconnected_nus ad dev)"
| "addAdapterListener_nus ad ne (DeviceDiscovered dev) = (ne, deviceDiscovered_nus ad dev)"
| "addAdapterListener_nus ad ne ScanTimedOut =
     (ne, [Log (Line [S ''scanTimedOut: Scanning timed-out. Exiting.'']), Exit 1])"
| "addAdapterListener_nus ad ne (CharacteristicValueChanged u v) =
     (ne, [Log (Line [S ''Received Data: '', S u, S '' '', V v])])"
| "addAdapterListener_nus ad ne (ConnParamUpdateRequest dev ps) =
     (ne, connParamUpdateRequest_nus ad ne dev ps)"
| "addAdapterListener_nus ad ne (ConnParamUpdate dev ps) =
     (ne, [Log (Line [S ''connParamUpdate: '', JP ps, S ''.''])])"

definition openAdapter_nus :: "adapter \<Rightarrow> unit promise" where
  "openAdapter_nus ad =
     (let options = \<lparr>baudRate = 1000000, logLevel = ''debug''\<rparr>
      in ([Log (Line [S ''Opening adapter with ID: '', S (adapter_instanceId ad),
                      S '' and baud rate: '', N 1000000, S ''...'']),
           Call (Open options)],
          (case open_result ad options of
             Some e \<Rightarrow> Inl (Error [S ''Error opening adapter: '', E e, S ''.''])
           | None \<Rightarrow> Inr ())))"

definition main_nus :: "adapter \<Rightarrow> effect list" where
  "main_nus ad =
     (case then_promise
             (then_promise (openAdapter_nus ad) (\<lambda>_.
                after_log [S ''Opened adapter.''] (startScan_nus ad)))
             (\<lambda>_. ([Log (Line [S ''Scanning.''])], Inr ())) of
        (t, Inr _) \<Rightarrow> t
      | (t, Inl error) \<Rightarrow> t @ [Log (Logged error), Exit (- 1)])"

section \<open>Runs\<close>

text \<open>
  A run of the UART central: the main entry, then the adapter's events one after the
  other, each with the answers the adapter gives while it is handled. Nothing runs after
  \<^verbatim>\<open>process.exit\<close>.
\<close>

fun events_nus :: "nat list \<Rightarrow> (adapter \<times> event) list \<Rightarrow> nat list \<times> effect list" where
  "events_nus ne [] = (ne, [])"
| "events_nus ne ((ad, ev) # es) =
     (case addAdapterListener_nus ad ne ev of
        (ne', t) \<Rightarrow>
          if exit_code t \<noteq> None then (ne', t)
          else (case events_nus ne' es of (ne'', t') \<Rightarrow> (ne'', t @ t')))"

definition run_nus :: "adapter \<Rightarrow> (adapter \<times> event) list \<Rightarrow> nat list \<times> effect list" where
  "run_nus ad0 es =
     (if exit_code (main_nus ad0) \<noteq> None then (notificationsEnabled_init, main_nus ad0)
      else (case events_nus notificationsEnabled_init es of
              (ne, t) \<Rightarrow> (ne, main_nus ad0 @ t)))"

section \<open>Concrete peripherals\<close>

text \<open>
  A UART peripheral and a Blinky peripheral with well-formed attribute tables, on an
  adapter that accepts every request, and an adapter that reports an error for every
  request. The theorems below are instantiated at them.
\<close>

definition nus_device :: device where
  "nus_device =
     \<lparr>device_instanceId = ''dev0'', address = ''C0FFEE000001'',
      addressType = ''BLE_GAP_ADDR_TYPE_RANDOM_STATIC'', name = ''Nordic_UART''\<rparr>"

definition nus_peripheral :: adapter where
  "nus_peripheral =
     \<lparr>adapter_instanceId = ''adapter0'',
      open_result = (\<lambda>_. None),
      close_result = None,
      startScan_result = (\<lambda>_. None),
      connect_result = (\<lambda>_ _. None),
      getServices_result = (\<lambda>i.
         if i = ''dev0''
         then Inr [\<lparr>instanceId = ''dev0.1'', uuid = ''1800''\<rparr>,
                   \<lparr>instanceId = ''dev0.2'', uuid = ''6E400001B5A3F393E0A9E50E24DCCA9E''\<rparr>]
         else Inl ''unknown device''),
      getCharacteristics_result = (\<lambda>i.
         if i = ''dev0.2''
         then Inr [\<lparr>instanceId = ''dev0.2.1'', uuid = ''6E400002B5A3F393E0A9E50E24DCCA9E''\<rparr>,
                   \<lparr>instanceId = ''dev0.2.2'', uuid = ''6E400003B5A3F393E0A9E50E24DCCA9E''\<rparr>]
         else Inr []),
      getDescriptors_result = (\<lambda>i.
         if i = ''dev0.2.2''
         then Inr [\<lparr>instanceId = ''dev0.2.2.1'', uuid = ''2803''\<rparr>,
                   \<lparr>instanceId = ''dev0.2.2.2'', uuid = ''2902''\<rparr>]
         else Inr []),
      writeDescriptorValue_result = (\<lambda>_ _ _. None),
      updateConnectionParameters_result = (\<lambda>_ _. None)\<rparr>"

definition blinky_device :: device where
  "blinky_device =
     \<lparr>device_instanceId = ''dev1'', address = ''C0FFEE000002'',
      addressType = ''BLE_GAP_ADDR_TYPE_RANDOM_STATIC'', name = ''Nordic_Blinky''\<rparr>"

definition blinky_peripheral :: adapter where
  "blinky_peripheral =
     \<lparr>adapter_instanceId = ''adapter0'',
      open_result = (\<lambda>_. None),
      close_result = None,
      startScan_result = (\<lambda>_. None),
      connect_result = (\<lambda>_ _. None),
      getServices_result = (\<lambda>i.
         if i = ''dev1''
         then Inr [\<lparr>instanceId = ''dev1.1'', uuid = ''1800''\<rparr>,
                   \<lparr>instanceId = ''dev1.2'', uuid = ''000015231212EFDE1523785FEABCD123''\<rparr>]
         else Inl ''unknown device''),
      getCharacteristics_result = (\<lambda>i.
         if i = ''dev1.2''
         then Inr [\<lparr>instanceId = ''dev1.2.1'', uuid = ''000015241212EFDE1523785FEABCD123''\<rparr>,
                   \<lparr>instanceId = ''dev1.2.2'', uuid = ''000015251212EFDE1523785FEABCD123''\<rparr>]
         else Inr []),
      getDescriptors_result = (\<lambda>i.
         if i = ''dev1.2.1''
         then Inr [\<lparr>instanceId = ''dev1.2.1.1'', uuid = ''2803''\<rparr>,
                   \<lparr>instanceId = ''dev1.2.1.2'', uuid = ''2902''\<rparr>]
         else Inr []),
      writeDescriptorValue_result = (\<lambda>_ _ _. None),
      updateConnectionParameters_result = (\<lambda>_ _. None)\<rparr>"

definition failing_adapter :: adapter where
  "failing_adapter =
     \<lparr>adapter_instanceId = ''adapter0'',
      open_result = (\<lambda>_. Some ''NRF_ERROR_INTERNAL''),
      close_result = Some ''NRF_ERROR_INTERNAL'',
      startScan_result = (\<lambda>_. Some ''NRF_ERROR_BUSY''),
      connect_result = (\<lambda>_ _. Some ''NRF_ERROR_BUSY''),
      getServices_result = (\<lambda>_. Inl ''NRF_ERROR_TIMEOUT''),
      getCharacteristics_result = (\<lambda>_. Inl ''NRF_ERROR_TIMEOUT''),
      getDescriptors_result = (\<lambda>_. Inl ''NRF_ERROR_TIMEOUT''),
      writeDescriptorValue_result = (\<lambda>_ _ _. Some ''NRF_ERROR_BUSY''),
      updateConnectionParameters_result = (\<lambda>_ _. Some ''NRF_ERROR_INVALID_PARAM'')\<rparr>"

section \<open>Properties of requests\<close>

text \<open>
  A connection-parameter object carries a value under a legacy field name and under the
  current one, and the two are the same number.
\<close>

definition same_value :: "conn_params \<Rightarrow> string \<Rightarrow> string \<Rightarrow> bool" where
  "same_value ps legacy current =
     (case (map_of ps legacy, map_of ps current) of
        (Some a, Some b) \<Rightarrow> a = b
      | _ \<Rightarrow> False)"

definition both_representations :: "conn_params \<Rightarrow> bool" where
  "both_representations ps =
     (same_value ps ''min_conn_interval'' ''minConnectionInterval'' \<and>
      same_value ps ''max_conn_interval'' ''maxConnectionInterval'' \<and>
      same_value ps ''slave_latency'' ''slaveLatency'' \<and>
      same_value ps ''conn_sup_timeout'' ''connectionSupervisionTimeout'')"

section \<open>Facts about the handlers\<close>

lemma calls_append [simp]: "calls (a @ b) = calls a @ calls b"
  by (induction a rule: calls.induct) simp_all

lemma logged_append [simp]: "logged (a @ b) = logged a @ logged b"
  by (induction a rule: logged.induct) simp_all

lemma deviceDisconnected_blinky_calls:
  "calls (deviceDisconnected_blinky ad dev) =
     [StartScan \<lparr>active = True, interval = 100, window = 50, timeout = 0\<rparr>]"
  by (simp add: deviceDisconnected_blinky_def startScan_blinky_def Let_def split: option.split)

lemma deviceDisconnected_nus_calls:
  "calls (deviceDisconnected_nus ad dev) =
     [StartScan \<lparr>active = True, interval = 100, window = 50, timeout = 0\<rparr>]"
  by (simp add: deviceDisconnected_nus_def startScan_nus_def Let_def split: option.split)

lemma main_blinky_calls:
  "calls (main_blinky ad) =
     Open \<lparr>baudRate = 1000000, logLevel = ''error''\<rparr> #
     (case open_result ad \<lparr>baudRate = 1000000, logLevel = ''error''\<rparr> of
        None \<Rightarrow> [StartScan \<lparr>active = True, interval = 100, window = 50, timeout = 0\<rparr>]
      | Some e \<Rightarrow> [])"
  by (simp add: main_blinky_def then_promise_def after_log_def openAdapter_blinky_def
      startScan_blinky_def Let_def split: option.split)

lemma main_nus_calls:
  "calls (main_nus ad) =
     Open \<lparr>baudRate = 1000000, logLevel = ''debug''\<rparr> #
     (case open_result ad \<lparr>baudRate = 1000000, logLevel = ''debug''\<rparr> of
        None \<Rightarrow> [StartScan \<lparr>active = True, interval = 100, window = 50, timeout = 0\<rparr>]
      | Some e \<Rightarrow> [])"
  by (simp add: main_nus_def then_promise_def after_log_def openAdapter_nus_def
      startScan_nus_def Let_def split: option.split)

lemma deviceDiscovered_blinky_calls:
  "calls (deviceDiscovered_blinky ad dev) =
     (if name dev = ''Nordic_Blinky'' then
        [Connect (address dev)
           \<lparr>scanParams = \<lparr>active = False, interval = 100, window = 50, timeout = 0\<rparr>,
            connParams = [(''min_conn_interval'', 7.5), (''max_conn_interval'', 300),
                          (''slave_latency'', 0), (''conn_sup_timeout'', 4000)]\<rparr>]
      else [])"
  by (simp add: deviceDiscovered_blinky_def connect_blinky_def Let_def split: option.split)

lemma deviceDiscovered_nus_calls:
  "calls (deviceDiscovered_nus ad dev) =
     (if name dev = BLE_DEVICE_NAME then
        [Connect (address dev)
           \<lparr>scanParams = \<lparr>active = False, interval = 100, window = 50, timeout = 0\<rparr>,
            connParams = connectionsPararms\<rparr>]
      else [])"
  by (simp add: deviceDiscovered_nus_def connect_nus_def Let_def split: option.split)

text \<open>The requests of the discovery pipeline, whatever the adapter answers.\<close>

lemma deviceConnected_blinky_calls:
  "\<exists>s c. calls (snd (deviceConnected_blinky ad ls dev)) \<in>
     {[GetServices (device_instanceId dev)],
      [GetServices (device_instanceId dev), GetCharacteristics s],
      [GetServices (device_instanceId dev), GetCharacteristics s, GetDescriptors c]}"
  by (auto simp add: deviceConnected_blinky_def then_promise_def after_log_def
      discoverBlinkyService_def discoverButtonCharacteristic_def discoverButtonCharCCCD_def
      split: sum.split option.split)

lemma handleConnectedDevice_calls:
  "\<exists>s c d. calls (handleConnectedDevice ad ne dev) \<in>
     {[GetServices (device_instanceId dev)],
      [GetServices (device_instanceId dev), GetCharacteristics s],
      [GetServices (device_instanceId dev), GetCharacteristics s, GetDescriptors c],
      [GetServices (device_instanceId dev), GetCharacteristics s, GetDescriptors c,
       WriteDescriptorValue d ne False]}"
  by (auto simp add: handleConnectedDevice_def then_promise_def after_log_def
      discoverNusService_def discoverTxCharacteristic_def discoverTxCharCCCD_def
      split: sum.split option.split)


lemma blinky_event_requests:
  assumes "r \<in> set (calls (snd (addAdapterListener_blinky ad ls ev)))"
  shows "r = StartScan \<lparr>active = True, interval = 100, window = 50, timeout = 0\<rparr>
       \<or> (\<exists>a. r = Connect a
             \<lparr>scanParams = \<lparr>active = False, interval = 100, window = 50, timeout = 0\<rparr>,
              connParams = [(''min_conn_interval'', 7.5), (''max_conn_interval'', 300),
                            (''slave_latency'', 0), (''conn_sup_timeout'', 4000)]\<rparr>)
       \<or> (\<exists>i. r = GetServices i) \<or> (\<exists>i. r = GetCharacteristics i)
       \<or> (\<exists>i. r = GetDescriptors i)"
proof (cases ev)
  case (DeviceConnected dev)
  obtain s c where "calls (snd (deviceConnected_blinky ad ls dev)) \<in>
     {[GetServices (device_instanceId dev)],
      [GetServices (device_instanceId dev), GetCharacteristics s],
      [GetServices (device_instanceId dev), GetCharacteristics s, GetDescriptors c]}"
    using deviceConnected_blinky_calls by blast
  with assms DeviceConnected show ?thesis by auto
next
  case (DeviceDisconnected dev)
  with assms show ?thesis by (simp add: deviceDisconnected_blinky_calls)
next
  case (DeviceDiscovered dev)
  with assms show ?thesis by (simp add: deviceDiscovered_blinky_calls split: if_splits)
qed (use assms in \<open>simp_all split: if_splits\<close>)

lemma nus_event_requests:
  assumes "r \<in> set (calls (snd (addAdapterListener_nus ad ne ev)))"
  shows "r = StartScan \<lparr>active = True, interval = 100, window = 50, timeout = 0\<rparr>
       \<or> (\<exists>a. r = Connect a
             \<lparr>scanParams = \<lparr>active = False, interval = 100, window = 50, timeout = 0\<rparr>,
              connParams = connectionsPararms\<rparr>)
       \<or> (\<exists>i. r = GetServices i) \<or> (\<exists>i. r = GetCharacteristics i)
       \<or> (\<exists>i. r = GetDescriptors i)
       \<or> (\<exists>i. r = WriteDescriptorValue i ne False)
       \<or> (\<exists>i ps. r = UpdateConnectionParameters i ps)"
proof (cases ev)
  case (ConnParamUpdateRequest dev ps)
  obtain s c d where "calls (handleConnectedDevice ad ne dev) \<in>
     {[GetServices (device_instanceId dev)],
      [GetServices (device_instanceId dev), GetCharacteristics s],
      [GetServices (device_instanceId dev), GetCharacteristics s, GetDescriptors c],
      [GetServices (device_instanceId dev), GetCharacteristics s, GetDescriptors c,
       WriteDescriptorValue d ne False]}"
    using handleConnectedDevice_calls by blast
  with assms ConnParamUpdateRequest show ?thesis
    by (auto simp add: connParamUpdateRequest_nus_def split: option.splits)
next
  case (DeviceDisconnected dev)
  with assms show ?thesis by (simp add: deviceDisconnected_nus_calls)
next
  case (DeviceDiscovered dev)
  with assms show ?thesis by (simp add: deviceDiscovered_nus_calls split: if_splits)
qed (use assms in \<open>simp_all split: if_splits\<close>)

lemma main_requests:
  assumes "r \<in> set (calls (main_blinky ad)) \<or> r \<in> set (calls (main_nus ad))"
  shows "r = StartScan \<lparr>active = True, interval = 100, window = 50, timeout = 0\<rparr>
       \<or> (\<exists>opts. r = Open opts)"
  using assms by (auto simp add: main_blinky_calls main_nus_calls split: option.splits)

lemma both_representations_connectionsPararms: "both_representations connectionsPararms"
  by (simp add: both_representations_def same_value_def connectionsPararms_def)

lemma events_nus_state: "fst (events_nus ne es) = ne"
proof (induction es)
  case Nil
  show ?case by simp
next
  case (Cons x es)
  obtain ad ev where x: "x = (ad, ev)" by (cases x)
  have "fst (addAdapterListener_nus ad ne ev) = ne" by (cases ev) simp_all
  with Cons x show ?case by (simp add: case_prod_unfold)
qed

lemma events_nus_writes:
  "WriteDescriptorValue i v a \<in> set (calls (snd (events_nus ne es))) \<Longrightarrow> v = ne \<and> a = False"
proof (induction es)
  case Nil
  then show ?case by simp
next
  case (Cons x es)
  obtain ad ev where x: "x = (ad, ev)" by (cases x)
  have st: "fst (addAdapterListener_nus ad ne ev) = ne" by (cases ev) simp_all
  from Cons.prems x st
  consider "WriteDescriptorValue i v a \<in> set (calls (snd (addAdapterListener_nus ad ne ev)))"
    | "WriteDescriptorValue i v a \<in> set (calls (snd (events_nus ne es)))"
    by (auto simp add: case_prod_unfold split: if_splits)
  then show ?case
  proof cases
    case 1
    with nus_event_requests [of "WriteDescriptorValue i v a" ad ne ev] show ?thesis by simp
  next
    case 2
    with Cons.IH show ?thesis by simp
  qed
qed

lemma handleConnectedDevice_nus_peripheral:
  "handleConnectedDevice nus_peripheral ne nus_device =
     [Call (GetServices ''dev0''),
      Log (Line [S ''Discovered the NUS service.'']),
      Call (GetCharacteristics ''dev0.2''),
      Log (Line [S ''Discovered the NUS TX characteristic.'']),
      Call (GetDescriptors ''dev0.2.2''),
      Log (Line [S ''Discovered the NUS TX characteristic's CCCD.'']),
      Log (Line [S ''Enabling notifications on the NUS TX characteristic.'']),
      Call (WriteDescriptorValue ''dev0.2.2.2'' ne False),
      Log (Line [S ''Notifications toggled on the NUS TX characteristic.''])]"
  by (simp add: handleConnectedDevice_def then_promise_def after_log_def discoverNusService_def
      discoverTxCharacteristic_def discoverTxCharCCCD_def nus_peripheral_def nus_device_def
      BLE_UUID_NUS_SERVICE_def LBS_UUID_NUS_TX_CHAR_def BLE_UUID_CCCD_def)

lemma main_nus_nus_peripheral:
  "main_nus nus_peripheral =
     [Log (Line [S ''Opening adapter with ID: '', S ''adapter0'', S '' and baud rate: '',
                 N 1000000, S ''...'']),
      Call (Open \<lparr>baudRate = 1000000, logLevel = ''debug''\<rparr>),
      Log (Line [S ''Opened adapter.'']),
      Log (Line [S ''Started scanning...'']),
      Call (StartScan \<lparr>active = True, interval = 100, window = 50, timeout = 0\<rparr>),
      Log (Line [S ''Scanning.''])]"
  by (simp add: main_nus_def then_promise_def after_log_def openAdapter_nus_def
      startScan_nus_def Let_def nus_peripheral_def)

lemma deviceDiscovered_nus_nus_peripheral:
  "deviceDiscovered_nus nus_peripheral nus_device =
     [Log (Line [S ''Discovered device '', S ''C0FFEE000001'', S ''/'',
                 S ''BLE_GAP_ADDR_TYPE_RANDOM_STATIC'', S ''.'']),
      Log (Line [S ''Connecting to device '', S ''C0FFEE000001'', S ''...'']),
      Call (Connect ''C0FFEE000001''
        \<lparr>scanParams = \<lparr>active = False, interval = 100, window = 50, timeout = 0\<rparr>,
         connParams = connectionsPararms\<rparr>)]"
  by (simp add: deviceDiscovered_nus_def connect_nus_def Let_def nus_peripheral_def
      nus_device_def BLE_DEVICE_NAME_def)

lemma connParamUpdateRequest_nus_nus_peripheral:
  "connParamUpdateRequest_nus nus_peripheral ne nus_device ps =
     [Log (Line [S ''connParamUpdateRequest: '', JP ps, S ''.'']),
      Call (UpdateConnectionParameters ''dev0'' ps)] @
     handleConnectedDevice nus_peripheral ne nus_device"
  by (simp add: connParamUpdateRequest_nus_def nus_peripheral_def nus_device_def)

text \<open>The effects of the two handlers that run the discovery pipeline, when it succeeds.\<close>

lemma handleConnectedDevice_discovered:
  assumes "snd (discoverNusService ad dev) = Inr s"
    and "snd (discoverTxCharacteristic ad s) = Inr c"
    and "snd (discoverTxCharCCCD ad c) = Inr d"
  shows "handleConnectedDevice ad ne dev =
     [Call (GetServices (device_instanceId dev)),
      Log (Line [S ''Discovered the NUS service.'']),
      Call (GetCharacteristics (instanceId s)),
      Log (Line [S ''Discovered the NUS TX characteristic.'']),
      Call (GetDescriptors (instanceId c)),
      Log (Line [S ''Discovered the NUS TX characteristic's CCCD.'']),
      Log (Line [S ''Enabling notifications on the NUS TX characteristic.'']),
      Call (WriteDescriptorValue (instanceId d) ne False)] @
     (case writeDescriptorValue_result ad (instanceId d) ne False of
        Some e \<Rightarrow>
          [Log (Line [S ''Error enabling notifications on the NUS TX characteristic: '', E e, S ''.'']),
           Exit 1]
      | None \<Rightarrow> [Log (Line [S ''Notifications toggled on the NUS TX characteristic.''])])"
proof -
  have 1: "discoverNusService ad dev = ([Call (GetServices (device_instanceId dev))], Inr s)"
    using assms(1) by (simp add: discoverNusService_def)
  have 2: "discoverTxCharacteristic ad s = ([Call (GetCharacteristics (instanceId s))], Inr c)"
    using assms(2) by (simp add: discoverTxCharacteristic_def)
  have 3: "discoverTxCharCCCD ad c = ([Call (GetDescriptors (instanceId c))], Inr d)"
    using assms(3) by (simp add: discoverTxCharCCCD_def)
  show ?thesis
    by (simp add: handleConnectedDevice_def then_promise_def after_log_def 1 2 3)
qed

lemma deviceConnected_blinky_discovered:
  assumes "snd (discoverBlinkyService ad dev) = Inr s"
    and "snd (discoverButtonCharacteristic ad s) = Inr c"
    and "snd (discoverButtonCharCCCD ad c) = Inr d"
  shows "deviceConnected_blinky ad ls dev =
     (ls @ [\<lparr>cccdDescriptor = d, notificationsEnabled = [0, 0]\<rparr>],
      [Log (Line [S ''Device '', S (address dev), S ''/'', S (addressType dev), S '' connected.'']),
       Call (GetServices (device_instanceId dev)),
       Log (Line [S ''Discovered the blinky service.'']),
       Call (GetCharacteristics (instanceId s)),
       Log (Line [S ''Discovered the blinky button characteristic.'']),
       Call (GetDescriptors (instanceId c)),
       Log (Line [S ''Discovered the blinky button characteristic's CCCD.'']),
       Log (Line [S ''Press any key to toggle notifications on the button characteristic.'']),
       Log (Line [S ''Press `l` or `L` to toggle LED on and off.'']),
       Log (Line [S ''Press `q` or `Q` to disconnect from the BLE peripheral and quit application.''])])"
proof -
  have 1: "discoverBlinkyService ad dev = ([Call (GetServices (device_instanceId dev))], Inr s)"
    using assms(1) by (simp add: discoverBlinkyService_def)
  have 2: "discoverButtonCharacteristic ad s = ([Call (GetCharacteristics (instanceId s))], Inr c)"
    using assms(2) by (simp add: discoverButtonCharacteristic_def)
  have 3: "discoverButtonCharCCCD ad c = ([Call (GetDescriptors (instanceId c))], Inr d)"
    using assms(3) by (simp add: discoverButtonCharCCCD_def)
  show ?thesis
    by (simp add: deviceConnected_blinky_def then_promise_def after_log_def 1 2 3
        addUserInputListener_blinky_def)
qed

text \<open>The pipeline on the two concrete peripherals.\<close>

lemma discover_nus_peripheral:
  "snd (discoverNusService nus_peripheral nus_device) =
     Inr \<lparr>instanceId = ''dev0.2'', uuid = ''6E400001B5A3F393E0A9E50E24DCCA9E''\<rparr>"
  "snd (discoverTxCharacteristic nus_peripheral
          \<lparr>instanceId = ''dev0.2'', uuid = ''6E400001B5A3F393E0A9E50E24DCCA9E''\<rparr>) =
     Inr \<lparr>instanceId = ''dev0.2.2'', uuid = ''6E400003B5A3F393E0A9E50E24DCCA9E''\<rparr>"
  "snd (discoverTxCharCCCD nus_peripheral
          \<lparr>instanceId = ''dev0.2.2'', uuid = ''6E400003B5A3F393E0A9E50E24DCCA9E''\<rparr>) =
     Inr \<lparr>instanceId = ''dev0.2.2.2'', uuid = ''2902''\<rparr>"
  by (simp_all add: discoverNusService_def discoverTxCharacteristic_def discoverTxCharCCCD_def
      nus_peripheral_def nus_device_def BLE_UUID_NUS_SERVICE_def LBS_UUID_NUS_TX_CHAR_def
      BLE_UUID_CCCD_def)

lemma discover_blinky_peripheral:
  "snd (discoverBlinkyService blinky_peripheral blinky_device) =
     Inr \<lparr>instanceId = ''dev1.2'', uuid = ''000015231212EFDE1523785FEABCD123''\<rparr>"
  "snd (discoverButtonCharacteristic blinky_peripheral
          \<lparr>instanceId = ''dev1.2'', uuid = ''000015231212EFDE1523785FEABCD123''\<rparr>) =
     Inr \<lparr>instanceId = ''dev1.2.1'', uuid = ''000015241212EFDE1523785FEABCD123''\<rparr>"
  "snd (discoverButtonCharCCCD blinky_peripheral
          \<lparr>instanceId = ''dev1.2.1'', uuid = ''000015241212EFDE1523785FEABCD123''\<rparr>) =
     Inr \<lparr>instanceId = ''dev1.2.1.2'', uuid = ''2902''\<rparr>"
  by (simp_all add: discoverBlinkyService_def discoverButtonCharacteristic_def
      discoverButtonCharCCCD_def blinky_peripheral_def blinky_device_def
      BLE_UUID_BLINKY_SERVICE_def LBS_UUID_BLINKY_BUTTON_CHAR_def BLE_UUID_CCCD_def)

text \<open>The search loop returns the first attribute with the wanted UUID, if there is one.\<close>

lemma first_with_uuid_None: "first_with_uuid u xs = None \<longleftrightarrow> u \<notin> uuid ` set xs"
  by (induction xs) auto

lemma first_with_uuid_first:
  "i < length xs \<Longrightarrow> uuid (xs ! i) = u \<Longrightarrow> (\<forall>j<i. uuid (xs ! j) \<noteq> u) \<Longrightarrow>
     first_with_uuid u xs = Some (xs ! i)"
proof (induction xs arbitrary: i)
  case Nil
  then show ?case by simp
next
  case (Cons x xs)
  show ?case
  proof (cases i)
    case 0
    with Cons.prems show ?thesis by simp
  next
    case (Suc k)
    with Cons.prems have "uuid x \<noteq> u" by auto
    moreover from Suc Cons.prems have "first_with_uuid u xs = Some (xs ! k)"
      by (intro Cons.IH) auto
    ultimately show ?thesis using Suc by simp
  qed
qed

text \<open>What the Blinky central does when a discovery step is rejected.\<close>

lemma deviceConnected_blinky_service_rejected:
  "snd (discoverBlinkyService ad dev) = Inl err \<Longrightarrow>
   deviceConnected_blinky ad ls dev =
     (ls,
      [Log (Line [S ''Device '', S (address dev), S ''/'', S (addressType dev), S '' connected.'']),
       Call (GetServices (device_instanceId dev)),
       Log (Logged err), Exit 1])"
  by (simp add: deviceConnected_blinky_def then_promise_def discoverBlinkyService_def)

lemma deviceConnected_blinky_characteristic_rejected:
  assumes "snd (discoverBlinkyService ad dev) = Inr s"
    and "snd (discoverButtonCharacteristic ad s) = Inl err"
  shows "deviceConnected_blinky ad ls dev =
     (ls,
      [Log (Line [S ''Device '', S (address dev), S ''/'', S (addressType dev), S '' connected.'']),
       Call (GetServices (device_instanceId dev)),
       Log (Line [S ''Discovered the blinky service.'']),
       Call (GetCharacteristics (instanceId s)),
       Log (Logged err), Exit 1])"
proof -
  have 1: "discoverBlinkyService ad dev = ([Call (GetServices (device_instanceId dev))], Inr s)"
    using assms(1) by (simp add: discoverBlinkyService_def)
  have 2: "discoverButtonCharacteristic ad s = ([Call (GetCharacteristics (instanceId s))], Inl err)"
    using assms(2) by (simp add: discoverButtonCharacteristic_def)
  show ?thesis
    by (simp add: deviceConnected_blinky_def then_promise_def after_log_def 1 2)
qed

lemma deviceConnected_blinky_descriptor_rejected:
  assumes "snd (discoverBlinkyService ad dev) = Inr s"
    and "snd (discoverButtonCharacteristic ad s) = Inr c"
    and "snd (discoverButtonCharCCCD ad c) = Inl err"
  shows "deviceConnected_blinky ad ls dev =
     (ls,
      [Log (Line [S ''Device '', S (address dev), S ''/'', S (addressType dev), S '' connected.'']),
       Call (GetServices (device_instanceId dev)),
       Log (Line [S ''Discovered the blinky service.'']),
       Call (GetCharacteristics (instanceId s)),
       Log (Line [S ''Discovered the blinky button characteristic.'']),
       Call (GetDescriptors (instanceId c)),
       Log (Logged err), Exit 1])"
proof -
  have 1: "discoverBlinkyService ad dev = ([Call (GetServices (device_instanceId dev))], Inr s)"
    using assms(1) by (simp add: discoverBlinkyService_def)
  have 2: "discoverButtonCharacteristic ad s = ([Call (GetCharacteristics (instanceId s))], Inr c)"
    using assms(2) by (simp add: discoverButtonCharacteristic_def)
  have 3: "discoverButtonCharCCCD ad c = ([Call (GetDescriptors (instanceId c))], Inl err)"
    using assms(3) by (simp add: discoverButtonCharCCCD_def)
  show ?thesis
    by (simp add: deviceConnected_blinky_def then_promise_def after_log_def 1 2 3)
qed

text \<open>The same for the UART central.\<close>

lemma handleConnectedDevice_service_rejected:
  "snd (discoverNusService ad dev) = Inl err \<Longrightarrow>
   handleConnectedDevice ad ne dev =
     [Call (GetServices (device_instanceId dev)), Log (Logged err), Exit 1]"
  by (simp add: handleConnectedDevice_def then_promise_def discoverNusService_def)

lemma handleConnectedDevice_characteristic_rejected:
  assumes "snd (discoverNusService ad dev) = Inr s"
    and "snd (discoverTxCharacteristic ad s) = Inl err"
  shows "handleConnectedDevice ad ne dev =
     [Call (GetServices (device_instanceId dev)),
      Log (Line [S ''Discovered the NUS service.'']),
      Call (GetCharacteristics (instanceId s)),
      Log (Logged err), Exit 1]"
proof -
  have 1: "discoverNusService ad dev = ([Call (GetServices (device_instanceId dev))], Inr s)"
    using assms(1) by (simp add: discoverNusService_def)
  have 2: "discoverTxCharacteristic ad s = ([Call (GetCharacteristics (instanceId s))], Inl err)"
    using assms(2) by (simp add: discoverTxCharacteristic_def)
  show ?thesis
    by (simp add: handleConnectedDevice_def then_promise_def after_log_def 1 2)
qed

lemma handleConnectedDevice_descriptor_rejected:
  assumes "snd (discoverNusService ad dev) = Inr s"
    and "snd (discoverTxCharacteristic ad s) = Inr c"
    and "snd (discoverTxCharCCCD ad c) = Inl err"
  shows "handleConnectedDevice ad ne dev =
     [Call (GetServices (device_instanceId dev)),
      Log (Line [S ''Discovered the NUS service.'']),
      Call (GetCharacteristics (instanceId s)),
      Log (Line [S ''Discovered the NUS TX characteristic.'']),
      Call (GetDescriptors (instanceId c)),
      Log (Logged err), Exit 1]"
proof -
  have 1: "discoverNusService ad dev = ([Call (GetServices (device_instanceId dev))], Inr s)"
    using assms(1) by (simp add: discoverNusService_def)
  have 2: "discoverTxCharacteristic ad s = ([Call (GetCharacteristics (instanceId s))], Inr c)"
    using assms(2) by (simp add: discoverTxCharacteristic_def)
  have 3: "discoverTxCharCCCD ad c = ([Call (GetDescriptors (instanceId c))], Inl err)"
    using assms(3) by (simp add: discoverTxCharCCCD_def)
  show ?thesis
    by (simp add: handleConnectedDevice_def then_promise_def after_log_def 1 2 3)
qed

text \<open>The service step: its rejections, and the service it resolves with.\<close>

lemma discoverBlinkyService_error:
  "getServices_result ad (device_instanceId dev) = Inl e \<Longrightarrow>
   snd (discoverBlinkyService ad dev) =
     Inl (Error [S ''Error discovering the blinky service: '', E e, S ''.''])"
  by (simp add: discoverBlinkyService_def)

lemma discoverBlinkyService_absent:
  "getServices_result ad (device_instanceId dev) = Inr ss \<Longrightarrow>
   BLE_UUID_BLINKY_SERVICE \<notin> uuid ` set ss \<Longrightarrow>
   snd (discoverBlinkyService ad dev) =
     Inl (Error [S ''Did not discover the blinky service in peripheral's GATT attribute table.''])"
  using first_with_uuid_None [of BLE_UUID_BLINKY_SERVICE ss]
  by (simp add: discoverBlinkyService_def)

lemma discoverBlinkyService_first:
  "getServices_result ad (device_instanceId dev) = Inr ss \<Longrightarrow> i < length ss \<Longrightarrow>
   uuid (ss ! i) = BLE_UUID_BLINKY_SERVICE \<Longrightarrow>
   (\<forall>j<i. uuid (ss ! j) \<noteq> BLE_UUID_BLINKY_SERVICE) \<Longrightarrow>
   snd (discoverBlinkyService ad dev) = Inr (ss ! i)"
  using first_with_uuid_first [of i ss BLE_UUID_BLINKY_SERVICE]
  by (simp add: discoverBlinkyService_def)

lemma discoverNusService_error:
  "getServices_result ad (device_instanceId dev) = Inl e \<Longrightarrow>
   snd (discoverNusService ad dev) =
     Inl (Error [S ''Error discovering the NUS service: '', E e, S ''.''])"
  by (simp add: discoverNusService_def)

lemma discoverNusService_absent:
  "getServices_result ad (device_instanceId dev) = Inr ss \<Longrightarrow>
   BLE_UUID_NUS_SERVICE \<notin> uuid ` set ss \<Longrightarrow>
   snd (discoverNusService ad dev) =
     Inl (Error [S ''Did not discover the NUS service in peripheral's GATT attribute table.''])"
  using first_with_uuid_None [of BLE_UUID_NUS_SERVICE ss]
  by (simp add: discoverNusService_def)

lemma discoverNusService_first:
  "getServices_result ad (device_instanceId dev) = Inr ss \<Longrightarrow> i < length ss \<Longrightarrow>
   uuid (ss ! i) = BLE_UUID_NUS_SERVICE \<Longrightarrow>
   (\<forall>j<i. uuid (ss ! j) \<noteq> BLE_UUID_NUS_SERVICE) \<Longrightarrow>
   snd (discoverNusService ad dev) = Inr (ss ! i)"
  using first_with_uuid_first [of i ss BLE_UUID_NUS_SERVICE]
  by (simp add: discoverNusService_def)

text \<open>The branches of the two keystroke callbacks.\<close>

lemma readable_blinky_toggle:
  assumes "first_char k \<notin> {Some CHR ''q'', Some CHR ''Q'', Some CHR ''l'', Some CHR ''L''}"
  shows "fst (readable_blinky ad l (Some k)) =
           l\<lparr>notificationsEnabled :=
               set0 (notificationsEnabled l) (if truthy0 (notificationsEnabled l) then 0 else 1)\<rparr>"
    and "calls (snd (readable_blinky ad l (Some k))) =
           [WriteDescriptorValue (instanceId (cccdDescriptor l))
              (set0 (notificationsEnabled l) (if truthy0 (notificationsEnabled l) then 0 else 1))
              False]"
  using assms by (simp_all add: readable_blinky_def Let_def split: option.split)

lemma readable_blinky_led:
  "first_char k = Some CHR ''l'' \<or> first_char k = Some CHR ''L'' \<Longrightarrow>
   readable_blinky ad l (Some k) = (l, [])"
  by (auto simp add: readable_blinky_def)

lemma readable_blinky_quit:
  assumes "first_char k = Some CHR ''q'' \<or> first_char k = Some CHR ''Q''"
  shows "fst (readable_blinky ad l (Some k)) = l"
    and "calls (snd (readable_blinky ad l (Some k))) = [Close]"
  using assms by (auto simp add: readable_blinky_def split: option.split)

lemma readable_nus_toggle:
  assumes "first_char k \<notin> {Some CHR ''q'', Some CHR ''Q''}"
  shows "fst (readable_nus ad cccd ne (Some k)) = set0 ne (if truthy0 ne then 0 else 1)"
    and "calls (snd (readable_nus ad cccd ne (Some k))) =
           [WriteDescriptorValue (instanceId cccd) (set0 ne (if truthy0 ne then 0 else 1)) False]"
  using assms by (simp_all add: readable_nus_def Let_def split: option.split)

lemma set0_flips: "set0 xs (if truthy0 xs then 0 else 1) \<noteq> xs"
  by (cases xs) auto

section \<open>The claims\<close>

text \<open>
  C6. On every \<^verbatim>\<open>deviceDisconnected\<close> event, in both programs, the handler issues
  exactly one \<^verbatim>\<open>startScan\<close> request, with the parameters of the scan the main entry
  starts once the adapter is open. When the adapter reports an error for that request the
  handler logs the rejection and does nothing else: no second scan request, no exit; the
  state of the program is as before.
\<close>

theorem deviceDisconnected_rescans_once:
  "snd (addAdapterListener_blinky ad ls (DeviceDisconnected dev)) =
     [Log (Line [S ''Device '', S (address dev), S '' disconnected.'']),
      Log (Line [S ''Started scanning...'']),
      Call (StartScan \<lparr>active = True, interval = 100, window = 50, timeout = 0\<rparr>),
      Log (case startScan_result ad \<lparr>active = True, interval = 100, window = 50, timeout = 0\<rparr> of
             None \<Rightarrow> Line [S ''Successfully initiated the scanning procedure.'']
           | Some e \<Rightarrow> Logged (Error [S ''Error starting scanning: '', E e, S ''.'']))]
   \<and> snd (addAdapterListener_nus ad ne (DeviceDisconnected dev)) =
     [Log (Line [S ''Device '', S (address dev), S '' disconnected.'']),
      Log (Line [S ''Started scanning...'']),
      Call (StartScan \<lparr>active = True, interval = 100, window = 50, timeout = 0\<rparr>),
      Log (case startScan_result ad \<lparr>active = True, interval = 100, window = 50, timeout = 0\<rparr> of
             None \<Rightarrow> Line [S ''Successfully initiated the scanning procedure.'']
           | Some e \<Rightarrow> Logged (Error [S ''Error starting scanning: '', E e, S ''.'']))]
   \<and> fst (addAdapterListener_blinky ad ls (DeviceDisconnected dev)) = ls
   \<and> fst (addAdapterListener_nus ad ne (DeviceDisconnected dev)) = ne
   \<and> (open_result ad0 \<lparr>baudRate = 1000000, logLevel = ''error''\<rparr> = None \<longrightarrow>
        calls (main_blinky ad0) =
          [Open \<lparr>baudRate = 1000000, logLevel = ''error''\<rparr>,
           StartScan \<lparr>active = True, interval = 100, window = 50, timeout = 0\<rparr>])
   \<and> (open_result ad0 \<lparr>baudRate = 1000000, logLevel = ''debug''\<rparr> = None \<longrightarrow>
        calls (main_nus ad0) =
          [Open \<lparr>baudRate = 1000000, logLevel = ''debug''\<rparr>,
           StartScan \<lparr>active = True, interval = 100, window = 50, timeout = 0\<rparr>])"
  by (simp add: deviceDisconnected_blinky_def deviceDisconnected_nus_def startScan_blinky_def
      startScan_nus_def Let_def main_blinky_calls main_nus_calls split: option.split)

theorem deviceDisconnected_rescans_once_witness:
  "snd (addAdapterListener_blinky failing_adapter [] (DeviceDisconnected blinky_device)) =
     [Log (Line [S ''Device '', S ''C0FFEE000002'', S '' disconnected.'']),
      Log (Line [S ''Started scanning...'']),
      Call (StartScan \<lparr>active = True, interval = 100, window = 50, timeout = 0\<rparr>),
      Log (Logged (Error [S ''Error starting scanning: '', E ''NRF_ERROR_BUSY'', S ''.'']))]
   \<and> snd (addAdapterListener_nus failing_adapter [1, 0] (DeviceDisconnected nus_device)) =
     [Log (Line [S ''Device '', S ''C0FFEE000001'', S '' disconnected.'']),
      Log (Line [S ''Started scanning...'']),
      Call (StartScan \<lparr>active = True, interval = 100, window = 50, timeout = 0\<rparr>),
      Log (Logged (Error [S ''Error starting scanning: '', E ''NRF_ERROR_BUSY'', S ''.'']))]
   \<and> calls (main_blinky blinky_peripheral) =
     [Open \<lparr>baudRate = 1000000, logLevel = ''error''\<rparr>,
      StartScan \<lparr>active = True, interval = 100, window = 50, timeout = 0\<rparr>]
   \<and> calls (main_nus nus_peripheral) =
     [Open \<lparr>baudRate = 1000000, logLevel = ''debug''\<rparr>,
      StartScan \<lparr>active = True, interval = 100, window = 50, timeout = 0\<rparr>]"
  using deviceDisconnected_rescans_once [of failing_adapter "[]" blinky_device "[1, 0]" blinky_peripheral]
    deviceDisconnected_rescans_once [of failing_adapter "[]" nus_device "[1, 0]" nus_peripheral]
  by (simp add: failing_adapter_def blinky_device_def nus_device_def blinky_peripheral_def
      nus_peripheral_def)

text \<open>
  C8. In both programs every \<^verbatim>\<open>startScan\<close> request, that of the main entry and that of
  any event handler, carries \<^verbatim>\<open>{active: true, interval: 100, window: 50, timeout: 0}\<close>,
  and every \<^verbatim>\<open>connect\<close> request carries the scan parameters
  \<^verbatim>\<open>{active: false, interval: 100, window: 50, timeout: 0}\<close> with the connection
  parameters of the program's profile. A \<^verbatim>\<open>deviceDiscovered\<close> event whose device has
  the profile's name issues such a connect request to the device's address.
\<close>

theorem scan_and_connect_parameters:
  "(\<forall>r \<in> set (calls (main_blinky ad0) @ calls (snd (addAdapterListener_blinky ad ls ev))).
      case r of
        StartScan p \<Rightarrow> p = \<lparr>active = True, interval = 100, window = 50, timeout = 0\<rparr>
      | Connect a opts \<Rightarrow>
          opts = \<lparr>scanParams = \<lparr>active = False, interval = 100, window = 50, timeout = 0\<rparr>,
                  connParams = [(''min_conn_interval'', 7.5), (''max_conn_interval'', 300),
                                (''slave_latency'', 0), (''conn_sup_timeout'', 4000)]\<rparr>
      | _ \<Rightarrow> True)
   \<and> (\<forall>r \<in> set (calls (main_nus ad0) @ calls (snd (addAdapterListener_nus ad ne ev))).
      case r of
        StartScan p \<Rightarrow> p = \<lparr>active = True, interval = 100, window = 50, timeout = 0\<rparr>
      | Connect a opts \<Rightarrow>
          opts = \<lparr>scanParams = \<lparr>active = False, interval = 100, window = 50, timeout = 0\<rparr>,
                  connParams = connectionsPararms\<rparr>
      | _ \<Rightarrow> True)
   \<and> (name dev = ''Nordic_Blinky'' \<longrightarrow>
        calls (snd (addAdapterListener_blinky ad ls (DeviceDiscovered dev))) =
          [Connect (address dev)
             \<lparr>scanParams = \<lparr>active = False, interval = 100, window = 50, timeout = 0\<rparr>,
              connParams = [(''min_conn_interval'', 7.5), (''max_conn_interval'', 300),
                            (''slave_latency'', 0), (''conn_sup_timeout'', 4000)]\<rparr>])
   \<and> (name dev = ''Nordic_UART'' \<longrightarrow>
        calls (snd (addAdapterListener_nus ad ne (DeviceDiscovered dev))) =
          [Connect (address dev)
             \<lparr>scanParams = \<lparr>active = False, interval = 100, window = 50, timeout = 0\<rparr>,
              connParams = connectionsPararms\<rparr>])"
proof -
  have "case r of
          StartScan p \<Rightarrow> p = \<lparr>active = True, interval = 100, window = 50, timeout = 0\<rparr>
        | Connect a opts \<Rightarrow>
            opts = \<lparr>scanParams = \<lparr>active = False, interval = 100, window = 50, timeout = 0\<rparr>,
                    connParams = [(''min_conn_interval'', 7.5), (''max_conn_interval'', 300),
                                  (''slave_latency'', 0), (''conn_sup_timeout'', 4000)]\<rparr>
        | _ \<Rightarrow> True"
    if "r \<in> set (calls (main_blinky ad0) @ calls (snd (addAdapterListener_blinky ad ls ev)))" for r
    using that main_requests [of r ad0] blinky_event_requests [of r ad ls ev] by auto
  moreover have "case r of
          StartScan p \<Rightarrow> p = \<lparr>active = True, interval = 100, window = 50, timeout = 0\<rparr>
        | Connect a opts \<Rightarrow>
            opts = \<lparr>scanParams = \<lparr>active = False, interval = 100, window = 50, timeout = 0\<rparr>,
                    connParams = connectionsPararms\<rparr>
        | _ \<Rightarrow> True"
    if "r \<in> set (calls (main_nus ad0) @ calls (snd (addAdapterListener_nus ad ne ev)))" for r
    using that main_requests [of r ad0] nus_event_requests [of r ad ne ev] by auto
  ultimately show ?thesis
    by (simp add: deviceDiscovered_blinky_calls deviceDiscovered_nus_calls BLE_DEVICE_NAME_def)
qed

theorem scan_and_connect_parameters_witness:
  "calls (main_blinky blinky_peripheral) @
     calls (snd (addAdapterListener_blinky blinky_peripheral [] (DeviceDiscovered blinky_device))) =
     [Open \<lparr>baudRate = 1000000, logLevel = ''error''\<rparr>,
      StartScan \<lparr>active = True, interval = 100, window = 50, timeout = 0\<rparr>,
      Connect ''C0FFEE000002''
        \<lparr>scanParams = \<lparr>active = False, interval = 100, window = 50, timeout = 0\<rparr>,
         connParams = [(''min_conn_interval'', 7.5), (''max_conn_interval'', 300),
                       (''slave_latency'', 0), (''conn_sup_timeout'', 4000)]\<rparr>]
   \<and> calls (main_nus nus_peripheral) @
     calls (snd (addAdapterListener_nus nus_peripheral [1, 0] (DeviceDiscovered nus_device))) =
     [Open \<lparr>baudRate = 1000000, logLevel = ''debug''\<rparr>,
      StartScan \<lparr>active = True, interval = 100, window = 50, timeout = 0\<rparr>,
      Connect ''C0FFEE000001''
        \<lparr>scanParams = \<lparr>active = False, interval = 100, window = 50, timeout = 0\<rparr>,
         connParams = connectionsPararms\<rparr>]"
  using scan_and_connect_parameters [where ?ad0.0 = blinky_peripheral and ad = blinky_peripheral
      and ls = "[]" and ev = "DeviceDiscovered blinky_device" and ne = "[1, 0]"
      and dev = blinky_device]
    scan_and_connect_parameters [where ?ad0.0 = nus_peripheral and ad = nus_peripheral
      and ls = "[]" and ev = "DeviceDiscovered nus_device" and ne = "[1, 0]"
      and dev = nus_device]
  by (simp add: main_blinky_calls main_nus_calls blinky_peripheral_def nus_peripheral_def
      blinky_device_def nus_device_def)

text \<open>
  C3, as stated, fails on the Blinky central: the connect request it issues for a
  discovered \<^verbatim>\<open>Nordic_Blinky\<close> device carries the four legacy field names only, so
  no value stands under \<^verbatim>\<open>minConnectionInterval\<close>.
\<close>

theorem connect_parameter_names_counterexample:
  "calls (snd (addAdapterListener_blinky blinky_peripheral [] (DeviceDiscovered blinky_device))) =
     [Connect ''C0FFEE000002''
        \<lparr>scanParams = \<lparr>active = False, interval = 100, window = 50, timeout = 0\<rparr>,
         connParams = [(''min_conn_interval'', 7.5), (''max_conn_interval'', 300),
                       (''slave_latency'', 0), (''conn_sup_timeout'', 4000)]\<rparr>]
   \<and> map_of [(''min_conn_interval'', 7.5 :: rat), (''max_conn_interval'', 300),
             (''slave_latency'', 0), (''conn_sup_timeout'', 4000)] ''minConnectionInterval'' = None
   \<and> \<not> both_representations
            [(''min_conn_interval'', 7.5), (''max_conn_interval'', 300),
             (''slave_latency'', 0), (''conn_sup_timeout'', 4000)]"
  by (simp add: deviceDiscovered_blinky_calls blinky_device_def both_representations_def
      same_value_def)

text \<open>
  C3, amended. Every connect request of the UART central carries the connection
  parameters under the legacy and under the current field names, with the same number
  under both names of a pair. Every connect request of the Blinky central carries the
  four legacy field names only, with the numbers 7.5, 300, 0 and 4000.
\<close>

theorem connect_parameter_names:
  "(\<forall>r \<in> set (calls (main_nus ad0) @ calls (snd (addAdapterListener_nus ad ne ev))).
      case r of Connect a opts \<Rightarrow> both_representations (connParams opts) | _ \<Rightarrow> True)
   \<and> (\<forall>r \<in> set (calls (main_blinky ad0) @ calls (snd (addAdapterListener_blinky ad ls ev))).
      case r of
        Connect a opts \<Rightarrow>
          connParams opts = [(''min_conn_interval'', 7.5), (''max_conn_interval'', 300),
                             (''slave_latency'', 0), (''conn_sup_timeout'', 4000)]
      | _ \<Rightarrow> True)
   \<and> (name dev = ''Nordic_UART'' \<longrightarrow>
        calls (snd (addAdapterListener_nus ad ne (DeviceDiscovered dev))) =
          [Connect (address dev)
             \<lparr>scanParams = \<lparr>active = False, interval = 100, window = 50, timeout = 0\<rparr>,
              connParams = connectionsPararms\<rparr>]
        \<and> both_representations connectionsPararms)"
proof -
  have "case r of Connect a opts \<Rightarrow> both_representations (connParams opts) | _ \<Rightarrow> True"
    if "r \<in> set (calls (main_nus ad0) @ calls (snd (addAdapterListener_nus ad ne ev)))" for r
    using that main_requests [of r ad0] nus_event_requests [of r ad ne ev]
    by (auto simp add: both_representations_connectionsPararms)
  moreover have "case r of
        Connect a opts \<Rightarrow>
          connParams opts = [(''min_conn_interval'', 7.5), (''max_conn_interval'', 300),
                             (''slave_latency'', 0), (''conn_sup_timeout'', 4000)]
      | _ \<Rightarrow> True"
    if "r \<in> set (calls (main_blinky ad0) @ calls (snd (addAdapterListener_blinky ad ls ev)))" for r
    using that main_requests [of r ad0] blinky_event_requests [of r ad ls ev] by auto
  ultimately show ?thesis
    by (simp add: deviceDiscovered_nus_calls BLE_DEVICE_NAME_def
        both_representations_connectionsPararms)
qed

theorem connect_parameter_names_witness:
  "calls (snd (addAdapterListener_nus nus_peripheral [1, 0] (DeviceDiscovered nus_device))) =
     [Connect ''C0FFEE000001''
        \<lparr>scanParams = \<lparr>active = False, interval = 100, window = 50, timeout = 0\<rparr>,
         connParams = connectionsPararms\<rparr>]
   \<and> both_representations connectionsPararms
   \<and> map_of connectionsPararms ''min_conn_interval'' = Some 7.5
   \<and> map_of connectionsPararms ''minConnectionInterval'' = Some 7.5
   \<and> calls (snd (addAdapterListener_blinky blinky_peripheral [] (DeviceDiscovered blinky_device))) =
     [Connect ''C0FFEE000002''
        \<lparr>scanParams = \<lparr>active = False, interval = 100, window = 50, timeout = 0\<rparr>,
         connParams = [(''min_conn_interval'', 7.5), (''max_conn_interval'', 300),
                       (''slave_latency'', 0), (''conn_sup_timeout'', 4000)]\<rparr>]"
  using connect_parameter_names [where ?ad0.0 = nus_peripheral and ad = nus_peripheral
      and ne = "[1, 0]" and ev = "DeviceDiscovered nus_device" and ls = "[]" and dev = nus_device]
    connect_parameter_names [where ?ad0.0 = blinky_peripheral and ad = blinky_peripheral
      and ne = "[1, 0]" and ev = "DeviceDiscovered blinky_device" and ls = "[]" and dev = nus_device]
  by (simp add: nus_device_def blinky_device_def deviceDiscovered_blinky_calls
      connectionsPararms_def)

text \<open>
  C9. In a run of the UART central, from the main entry through any sequence of adapter
  events and whatever the adapter answers, the module-level array keeps its initial value
  \<^verbatim>\<open>[1, 0]\<close>, and every descriptor write the program issues carries \<^verbatim>\<open>[1, 0]\<close> as a
  write without acknowledgement. No registered handler runs the toggle of
  \<^verbatim>\<open>addUserInputListener\<close>.
\<close>

theorem nus_writes_always_enabled:
  "fst (run_nus ad0 es) = [1, 0]
   \<and> (\<forall>r \<in> set (calls (snd (run_nus ad0 es))).
        case r of WriteDescriptorValue i v a \<Rightarrow> v = [1, 0] \<and> a = False | _ \<Rightarrow> True)"
proof -
  have "v = [1, 0] \<and> a = False"
    if "WriteDescriptorValue i v a \<in> set (calls (snd (run_nus ad0 es)))" for i v a
  proof -
    from that main_requests [of "WriteDescriptorValue i v a" ad0]
    have "WriteDescriptorValue i v a \<in> set (calls (snd (events_nus notificationsEnabled_init es)))"
      by (auto simp add: run_nus_def case_prod_unfold split: if_splits)
    with events_nus_writes [of i v a notificationsEnabled_init es] show ?thesis
      by (simp add: notificationsEnabled_init_def)
  qed
  then have "\<forall>r \<in> set (calls (snd (run_nus ad0 es))).
        case r of WriteDescriptorValue i v a \<Rightarrow> v = [1, 0] \<and> a = False | _ \<Rightarrow> True"
    by (auto split: request.split)
  moreover have "fst (run_nus ad0 es) = [1, 0]"
    using events_nus_state [of notificationsEnabled_init es]
    by (simp add: run_nus_def case_prod_unfold notificationsEnabled_init_def)
  ultimately show ?thesis by simp
qed

theorem nus_writes_always_enabled_witness:
  "calls (snd (run_nus nus_peripheral
       [(nus_peripheral, DeviceDiscovered nus_device),
        (nus_peripheral, DeviceConnected nus_device),
        (nus_peripheral, ConnParamUpdateRequest nus_device [(''min_conn_interval'', 15)]),
        (nus_peripheral, ConnParamUpdateRequest nus_device [(''min_conn_interval'', 30)])])) =
     [Open \<lparr>baudRate = 1000000, logLevel = ''debug''\<rparr>,
      StartScan \<lparr>active = True, interval = 100, window = 50, timeout = 0\<rparr>,
      Connect ''C0FFEE000001''
        \<lparr>scanParams = \<lparr>active = False, interval = 100, window = 50, timeout = 0\<rparr>,
         connParams = connectionsPararms\<rparr>,
      UpdateConnectionParameters ''dev0'' [(''min_conn_interval'', 15)],
      GetServices ''dev0'', GetCharacteristics ''dev0.2'', GetDescriptors ''dev0.2.2'',
      WriteDescriptorValue ''dev0.2.2.2'' [1, 0] False,
      UpdateConnectionParameters ''dev0'' [(''min_conn_interval'', 30)],
      GetServices ''dev0'', GetCharacteristics ''dev0.2'', GetDescriptors ''dev0.2.2'',
      WriteDescriptorValue ''dev0.2.2.2'' [1, 0] False]
   \<and> fst (run_nus nus_peripheral
       [(nus_peripheral, DeviceDiscovered nus_device),
        (nus_peripheral, DeviceConnected nus_device),
        (nus_peripheral, ConnParamUpdateRequest nus_device [(''min_conn_interval'', 15)]),
        (nus_peripheral, ConnParamUpdateRequest nus_device [(''min_conn_interval'', 30)])]) = [1, 0]"
  using nus_writes_always_enabled [of nus_peripheral
       "[(nus_peripheral, DeviceDiscovered nus_device),
        (nus_peripheral, DeviceConnected nus_device),
        (nus_peripheral, ConnParamUpdateRequest nus_device [(''min_conn_interval'', 15)]),
        (nus_peripheral, ConnParamUpdateRequest nus_device [(''min_conn_interval'', 30)])]"]
  by (simp add: run_nus_def main_nus_nus_peripheral connParamUpdateRequest_nus_nus_peripheral
      handleConnectedDevice_nus_peripheral deviceDiscovered_nus_nus_peripheral
      notificationsEnabled_init_def)

text \<open>
  C7. The default application of the UART central is the descriptor write at the end of
  \<^verbatim>\<open>handleConnectedDevice\<close>. When discovery finds the CCCD, it writes the initial value
  \<^verbatim>\<open>[1, 0]\<close> to it; run twice in a row (two accepted parameter-update requests, the
  adapter answering alike and accepting the first write), it leaves the array at
  \<^verbatim>\<open>[1, 0]\<close> and the second write request is the same as the first.
\<close>

theorem applyDefault_twice:
  assumes "snd (discoverNusService ad dev) = Inr s"
    and "snd (discoverTxCharacteristic ad s) = Inr c"
    and "snd (discoverTxCharCCCD ad c) = Inr d"
    and "updateConnectionParameters_result ad (device_instanceId dev) ps = None"
    and "updateConnectionParameters_result ad (device_instanceId dev) ps' = None"
    and "writeDescriptorValue_result ad (instanceId d) [1, 0] False = None"
  shows "calls (handleConnectedDevice ad notificationsEnabled_init dev) =
           [GetServices (device_instanceId dev), GetCharacteristics (instanceId s),
            GetDescriptors (instanceId c), WriteDescriptorValue (instanceId d) [1, 0] False]
       \<and> fst (events_nus notificationsEnabled_init
              [(ad, ConnParamUpdateRequest dev ps), (ad, ConnParamUpdateRequest dev ps')]) = [1, 0]
       \<and> calls (snd (events_nus notificationsEnabled_init
              [(ad, ConnParamUpdateRequest dev ps), (ad, ConnParamUpdateRequest dev ps')])) =
           [UpdateConnectionParameters (device_instanceId dev) ps,
            GetServices (device_instanceId dev), GetCharacteristics (instanceId s),
            GetDescriptors (instanceId c), WriteDescriptorValue (instanceId d) [1, 0] False,
            UpdateConnectionParameters (device_instanceId dev) ps',
            GetServices (device_instanceId dev), GetCharacteristics (instanceId s),
            GetDescriptors (instanceId c), WriteDescriptorValue (instanceId d) [1, 0] False]"
  using assms
  by (simp add: handleConnectedDevice_discovered [OF assms(1-3)] connParamUpdateRequest_nus_def
      notificationsEnabled_init_def)

theorem applyDefault_twice_witness:
  "calls (handleConnectedDevice nus_peripheral notificationsEnabled_init nus_device) =
     [GetServices ''dev0'', GetCharacteristics ''dev0.2'', GetDescriptors ''dev0.2.2'',
      WriteDescriptorValue ''dev0.2.2.2'' [1, 0] False]
   \<and> fst (events_nus notificationsEnabled_init
        [(nus_peripheral, ConnParamUpdateRequest nus_device [(''min_conn_interval'', 15)]),
         (nus_peripheral, ConnParamUpdateRequest nus_device [(''min_conn_interval'', 15)])]) = [1, 0]
   \<and> calls (snd (events_nus notificationsEnabled_init
        [(nus_peripheral, ConnParamUpdateRequest nus_device [(''min_conn_interval'', 15)]),
         (nus_peripheral, ConnParamUpdateRequest nus_device [(''min_conn_interval'', 15)])])) =
     [UpdateConnectionParameters ''dev0'' [(''min_conn_interval'', 15)],
      GetServices ''dev0'', GetCharacteristics ''dev0.2'', GetDescriptors ''dev0.2.2'',
      WriteDescriptorValue ''dev0.2.2.2'' [1, 0] False,
      UpdateConnectionParameters ''dev0'' [(''min_conn_interval'', 15)],
      GetServices ''dev0'', GetCharacteristics ''dev0.2'', GetDescriptors ''dev0.2.2'',
      WriteDescriptorValue ''dev0.2.2.2'' [1, 0] False]"
proof -
  have u: "updateConnectionParameters_result nus_peripheral (device_instanceId nus_device)
             [(''min_conn_interval'', 15)] = None"
    by (simp add: nus_peripheral_def)
  have w: "writeDescriptorValue_result nus_peripheral
             (instanceId \<lparr>instanceId = ''dev0.2.2.2'', uuid = ''2902''\<rparr>) [1, 0] False = None"
    by (simp add: nus_peripheral_def)
  show ?thesis
    using applyDefault_twice [OF discover_nus_peripheral u u w]
    by (simp add: nus_device_def)
qed

text \<open>
  C2, as stated, fails on the Blinky central: it registers no handler for
  \<^verbatim>\<open>connParamUpdateRequest\<close>, so the event causes no request at all, and in
  particular no \<^verbatim>\<open>updateConnectionParameters\<close>.
\<close>

theorem connParamUpdateRequest_handling_counterexample:
  "addAdapterListener_blinky blinky_peripheral []
     (ConnParamUpdateRequest blinky_device [(''min_conn_interval'', 15)]) = ([], [])
   \<and> UpdateConnectionParameters ''dev1'' [(''min_conn_interval'', 15)] \<notin>
       set (calls (snd (addAdapterListener_blinky blinky_peripheral []
         (ConnParamUpdateRequest blinky_device [(''min_conn_interval'', 15)]))))"
  by simp

text \<open>
  C2, amended. In the UART central every \<^verbatim>\<open>connParamUpdateRequest\<close> event makes the
  handler call \<^verbatim>\<open>updateConnectionParameters\<close> with the device and the requested
  parameters. When the adapter reports an error the handler logs it and does nothing else
  (no exit, the state as before). When the adapter accepts, \<^verbatim>\<open>handleConnectedDevice\<close>
  runs: its requests start again at \<^verbatim>\<open>getServices\<close>, and a descriptor write comes only
  as the fourth request, after \<^verbatim>\<open>getServices\<close>, \<^verbatim>\<open>getCharacteristics\<close> and
  \<^verbatim>\<open>getDescriptors\<close>. The Blinky central has no handler for the event: it issues no
  request and its state is as before.
\<close>

theorem connParamUpdateRequest_handling:
  "fst (addAdapterListener_nus ad ne (ConnParamUpdateRequest dev ps)) = ne
   \<and> (updateConnectionParameters_result ad (device_instanceId dev) ps = Some e \<longrightarrow>
        snd (addAdapterListener_nus ad ne (ConnParamUpdateRequest dev ps)) =
          [Log (Line [S ''connParamUpdateRequest: '', JP ps, S ''.'']),
           Call (UpdateConnectionParameters (device_instanceId dev) ps),
           Log (Line [S ''updateConnectionParameters Failed: '', E e, S ''.''])])
   \<and> (updateConnectionParameters_result ad (device_instanceId dev) ps = None \<longrightarrow>
        snd (addAdapterListener_nus ad ne (ConnParamUpdateRequest dev ps)) =
          [Log (Line [S ''connParamUpdateRequest: '', JP ps, S ''.'']),
           Call (UpdateConnectionParameters (device_instanceId dev) ps)] @
          handleConnectedDevice ad ne dev
        \<and> (\<exists>s c d. calls (handleConnectedDevice ad ne dev) \<in>
             {[GetServices (device_instanceId dev)],
              [GetServices (device_instanceId dev), GetCharacteristics s],
              [GetServices (device_instanceId dev), GetCharacteristics s, GetDescriptors c],
              [GetServices (device_instanceId dev), GetCharacteristics s, GetDescriptors c,
               WriteDescriptorValue d ne False]}))
   \<and> (updateConnectionParameters_result ad (device_instanceId dev) ps = None \<longrightarrow>
        snd (discoverNusService ad dev) = Inr s \<longrightarrow>
        snd (discoverTxCharacteristic ad s) = Inr c \<longrightarrow>
        snd (discoverTxCharCCCD ad c) = Inr d \<longrightarrow>
        calls (snd (addAdapterListener_nus ad ne (ConnParamUpdateRequest dev ps))) =
          [UpdateConnectionParameters (device_instanceId dev) ps,
           GetServices (device_instanceId dev), GetCharacteristics (instanceId s),
           GetDescriptors (instanceId c), WriteDescriptorValue (instanceId d) ne False])
   \<and> addAdapterListener_blinky ad ls (ConnParamUpdateRequest dev ps) = (ls, [])"
  using handleConnectedDevice_calls [of ad ne dev]
  by (simp add: connParamUpdateRequest_nus_def handleConnectedDevice_discovered
      split: option.split)

theorem connParamUpdateRequest_handling_witness:
  "snd (addAdapterListener_nus failing_adapter [1, 0]
          (ConnParamUpdateRequest nus_device [(''min_conn_interval'', 15)])) =
     [Log (Line [S ''connParamUpdateRequest: '', JP [(''min_conn_interval'', 15)], S ''.'']),
      Call (UpdateConnectionParameters ''dev0'' [(''min_conn_interval'', 15)]),
      Log (Line [S ''updateConnectionParameters Failed: '', E ''NRF_ERROR_INVALID_PARAM'', S ''.''])]
   \<and> calls (snd (addAdapterListener_nus nus_peripheral [1, 0]
          (ConnParamUpdateRequest nus_device [(''min_conn_interval'', 15)]))) =
     [UpdateConnectionParameters ''dev0'' [(''min_conn_interval'', 15)],
      GetServices ''dev0'', GetCharacteristics ''dev0.2'', GetDescriptors ''dev0.2.2'',
      WriteDescriptorValue ''dev0.2.2.2'' [1, 0] False]"
proof -
  have f: "updateConnectionParameters_result failing_adapter (device_instanceId nus_device)
             [(''min_conn_interval'', 15)] = Some ''NRF_ERROR_INVALID_PARAM''"
    by (simp add: failing_adapter_def)
  have u: "updateConnectionParameters_result nus_peripheral (device_instanceId nus_device)
             [(''min_conn_interval'', 15)] = None"
    by (simp add: nus_peripheral_def)
  have 1: "snd (addAdapterListener_nus failing_adapter [1, 0]
          (ConnParamUpdateRequest nus_device [(''min_conn_interval'', 15)])) =
     [Log (Line [S ''connParamUpdateRequest: '', JP [(''min_conn_interval'', 15)], S ''.'']),
      Call (UpdateConnectionParameters (device_instanceId nus_device) [(''min_conn_interval'', 15)]),
      Log (Line [S ''updateConnectionParameters Failed: '', E ''NRF_ERROR_INVALID_PARAM'', S ''.''])]"
    using connParamUpdateRequest_handling [where ad = failing_adapter and ne = "[1, 0]"
        and dev = nus_device and ps = "[(''min_conn_interval'', 15)]"
        and e = "''NRF_ERROR_INVALID_PARAM''"] f
    by simp
  have 2: "calls (snd (addAdapterListener_nus nus_peripheral [1, 0]
          (ConnParamUpdateRequest nus_device [(''min_conn_interval'', 15)]))) =
     [UpdateConnectionParameters (device_instanceId nus_device) [(''min_conn_interval'', 15)],
      GetServices (device_instanceId nus_device), GetCharacteristics ''dev0.2'',
      GetDescriptors ''dev0.2.2'', WriteDescriptorValue ''dev0.2.2.2'' [1, 0] False]"
    using connParamUpdateRequest_handling [where ad = nus_peripheral and ne = "[1, 0]"
        and dev = nus_device and ps = "[(''min_conn_interval'', 15)]"
        and s = "\<lparr>instanceId = ''dev0.2'', uuid = ''6E400001B5A3F393E0A9E50E24DCCA9E''\<rparr>"
        and c = "\<lparr>instanceId = ''dev0.2.2'', uuid = ''6E400003B5A3F393E0A9E50E24DCCA9E''\<rparr>"
        and d = "\<lparr>instanceId = ''dev0.2.2.2'', uuid = ''2902''\<rparr>"] u
      discover_nus_peripheral
    by auto
  show ?thesis
    using 1 2 by (simp add: nus_device_def)
qed

text \<open>
  C1, as stated, fails on both centrals. On a \<^verbatim>\<open>deviceConnected\<close> event the UART
  central only logs: it issues no request, so no discovery. The Blinky central runs the
  discovery pipeline, and when it has found the CCCD it issues no descriptor write: it
  registers the keystroke callback, whose array starts at \<^verbatim>\<open>[0, 0]\<close>.
\<close>

theorem deviceConnected_handling_counterexample:
  "addAdapterListener_nus nus_peripheral notificationsEnabled_init (DeviceConnected nus_device) =
     ([1, 0],
      [Log (Line [S ''Device '', S ''C0FFEE000001'', S ''/'', S ''BLE_GAP_ADDR_TYPE_RANDOM_STATIC'',
                  S '' connected.''])])
   \<and> calls (snd (addAdapterListener_nus nus_peripheral notificationsEnabled_init
                   (DeviceConnected nus_device))) = []
   \<and> calls (snd (addAdapterListener_blinky blinky_peripheral [] (DeviceConnected blinky_device))) =
     [GetServices ''dev1'', GetCharacteristics ''dev1.2'', GetDescriptors ''dev1.2.1'']
   \<and> fst (addAdapterListener_blinky blinky_peripheral [] (DeviceConnected blinky_device)) =
     [\<lparr>cccdDescriptor = \<lparr>instanceId = ''dev1.2.1.2'', uuid = ''2902''\<rparr>,
       notificationsEnabled = [0, 0]\<rparr>]"
  by (simp add: deviceConnected_blinky_discovered [OF discover_blinky_peripheral]
      notificationsEnabled_init_def, simp add: nus_device_def blinky_device_def)

text \<open>
  C1, amended. In the Blinky central every \<^verbatim>\<open>deviceConnected\<close> event invokes the
  discovery pipeline at once (the first request is \<^verbatim>\<open>getServices\<close> on the device); on
  discovery success the handler issues the three discovery requests and no descriptor
  write, does not exit, and registers a keystroke callback for the discovered CCCD with
  the array \<^verbatim>\<open>[0, 0]\<close>. In the UART central a \<^verbatim>\<open>deviceConnected\<close> event is only
  logged; the discovery pipeline runs on an accepted \<^verbatim>\<open>connParamUpdateRequest\<close>, and
  on discovery success writes the current array, which is \<^verbatim>\<open>[1, 0]\<close> initially, to the
  discovered CCCD without acknowledgement.
\<close>

theorem deviceConnected_handling:
  "(\<exists>t. snd (addAdapterListener_blinky ad ls (DeviceConnected dev)) =
         Log (Line [S ''Device '', S (address dev), S ''/'', S (addressType dev), S '' connected.'']) #
         Call (GetServices (device_instanceId dev)) # t)
   \<and> (snd (discoverBlinkyService ad dev) = Inr s \<longrightarrow>
        snd (discoverButtonCharacteristic ad s) = Inr c \<longrightarrow>
        snd (discoverButtonCharCCCD ad c) = Inr d \<longrightarrow>
        calls (snd (addAdapterListener_blinky ad ls (DeviceConnected dev))) =
          [GetServices (device_instanceId dev), GetCharacteristics (instanceId s),
           GetDescriptors (instanceId c)]
        \<and> fst (addAdapterListener_blinky ad ls (DeviceConnected dev)) =
          ls @ [\<lparr>cccdDescriptor = d, notificationsEnabled = [0, 0]\<rparr>]
        \<and> exit_code (snd (addAdapterListener_blinky ad ls (DeviceConnected dev))) = None)
   \<and> addAdapterListener_nus ad ne (DeviceConnected dev) =
        (ne, [Log (Line [S ''Device '', S (address dev), S ''/'', S (addressType dev),
                         S '' connected.''])])
   \<and> (updateConnectionParameters_result ad (device_instanceId dev) ps = None \<longrightarrow>
        snd (discoverNusService ad dev) = Inr s' \<longrightarrow>
        snd (discoverTxCharacteristic ad s') = Inr c' \<longrightarrow>
        snd (discoverTxCharCCCD ad c') = Inr d' \<longrightarrow>
        calls (snd (addAdapterListener_nus ad ne (ConnParamUpdateRequest dev ps))) =
          [UpdateConnectionParameters (device_instanceId dev) ps,
           GetServices (device_instanceId dev), GetCharacteristics (instanceId s'),
           GetDescriptors (instanceId c'), WriteDescriptorValue (instanceId d') ne False])
   \<and> notificationsEnabled_init = [1, 0]"
proof -
  have "\<exists>t. snd (deviceConnected_blinky ad ls dev) =
         Log (Line [S ''Device '', S (address dev), S ''/'', S (addressType dev), S '' connected.'']) #
         Call (GetServices (device_instanceId dev)) # t"
    by (simp add: deviceConnected_blinky_def then_promise_def after_log_def
        discoverBlinkyService_def split: sum.split option.split prod.split)
  then show ?thesis
    by (simp add: deviceConnected_blinky_discovered handleConnectedDevice_discovered
        connParamUpdateRequest_nus_def notificationsEnabled_init_def split: option.split)
qed

theorem deviceConnected_handling_witness:
  "calls (snd (addAdapterListener_blinky blinky_peripheral [] (DeviceConnected blinky_device))) =
     [GetServices ''dev1'', GetCharacteristics ''dev1.2'', GetDescriptors ''dev1.2.1'']
   \<and> fst (addAdapterListener_blinky blinky_peripheral [] (DeviceConnected blinky_device)) =
     [\<lparr>cccdDescriptor = \<lparr>instanceId = ''dev1.2.1.2'', uuid = ''2902''\<rparr>,
       notificationsEnabled = [0, 0]\<rparr>]
   \<and> calls (snd (addAdapterListener_nus nus_peripheral notificationsEnabled_init
        (ConnParamUpdateRequest nus_device [(''min_conn_interval'', 15)]))) =
     [UpdateConnectionParameters ''dev0'' [(''min_conn_interval'', 15)],
      GetServices ''dev0'', GetCharacteristics ''dev0.2'', GetDescriptors ''dev0.2.2'',
      WriteDescriptorValue ''dev0.2.2.2'' [1, 0] False]"
proof -
  have u: "updateConnectionParameters_result nus_peripheral (device_instanceId nus_device)
             [(''min_conn_interval'', 15)] = None"
    by (simp add: nus_peripheral_def)
  have 1: "calls (snd (addAdapterListener_blinky blinky_peripheral [] (DeviceConnected blinky_device))) =
       [GetServices (device_instanceId blinky_device), GetCharacteristics ''dev1.2'',
        GetDescriptors ''dev1.2.1'']
     \<and> fst (addAdapterListener_blinky blinky_peripheral [] (DeviceConnected blinky_device)) =
       [\<lparr>cccdDescriptor = \<lparr>instanceId = ''dev1.2.1.2'', uuid = ''2902''\<rparr>,
         notificationsEnabled = [0, 0]\<rparr>]"
    using deviceConnected_handling [where ad = blinky_peripheral and ls = "[]"
        and dev = blinky_device
        and s = "\<lparr>instanceId = ''dev1.2'', uuid = ''000015231212EFDE1523785FEABCD123''\<rparr>"
        and c = "\<lparr>instanceId = ''dev1.2.1'', uuid = ''000015241212EFDE1523785FEABCD123''\<rparr>"
        and d = "\<lparr>instanceId = ''dev1.2.1.2'', uuid = ''2902''\<rparr>"]
      discover_blinky_peripheral
    by simp
  have 2: "calls (snd (addAdapterListener_nus nus_peripheral notificationsEnabled_init
        (ConnParamUpdateRequest nus_device [(''min_conn_interval'', 15)]))) =
     [UpdateConnectionParameters (device_instanceId nus_device) [(''min_conn_interval'', 15)],
      GetServices (device_instanceId nus_device), GetCharacteristics ''dev0.2'',
      GetDescriptors ''dev0.2.2'', WriteDescriptorValue ''dev0.2.2.2'' notificationsEnabled_init False]"
    using deviceConnected_handling [where ad = nus_peripheral and ne = notificationsEnabled_init
        and dev = nus_device and ps = "[(''min_conn_interval'', 15)]"
        and s' = "\<lparr>instanceId = ''dev0.2'', uuid = ''6E400001B5A3F393E0A9E50E24DCCA9E''\<rparr>"
        and c' = "\<lparr>instanceId = ''dev0.2.2'', uuid = ''6E400003B5A3F393E0A9E50E24DCCA9E''\<rparr>"
        and d' = "\<lparr>instanceId = ''dev0.2.2.2'', uuid = ''2902''\<rparr>"] u
      discover_nus_peripheral
    by simp
  show ?thesis
    using 1 2 by (simp add: nus_device_def blinky_device_def notificationsEnabled_init_def)
qed

text \<open>
  C5. In both centrals the discovery pipeline starts with one \<^verbatim>\<open>getServices\<close> request.
  When the adapter reports an error for it, or its answer holds no service with the
  target UUID, the service step is rejected and the handler logs the rejection and exits
  with 1: \<^verbatim>\<open>getServices\<close> is the only request, \<^verbatim>\<open>getCharacteristics\<close> is never called.
  When the answer holds a service with the target UUID, the step resolves with the first
  such service. A rejection of the characteristic step or of the descriptor step ends the
  handler in the same way: each request issued once, the rejection logged, exit with 1.
\<close>

theorem discovery_failure_is_fatal:
  "(getServices_result ad (device_instanceId dev) = Inl e \<longrightarrow>
      addAdapterListener_blinky ad ls (DeviceConnected dev) =
        (ls,
         [Log (Line [S ''Device '', S (address dev), S ''/'', S (addressType dev), S '' connected.'']),
          Call (GetServices (device_instanceId dev)),
          Log (Logged (Error [S ''Error discovering the blinky service: '', E e, S ''.''])),
          Exit 1])
      \<and> handleConnectedDevice ad ne dev =
        [Call (GetServices (device_instanceId dev)),
         Log (Logged (Error [S ''Error discovering the NUS service: '', E e, S ''.''])),
         Exit 1])
   \<and> (getServices_result ad (device_instanceId dev) = Inr ss \<longrightarrow>
      BLE_UUID_BLINKY_SERVICE \<notin> uuid ` set ss \<longrightarrow>
      addAdapterListener_blinky ad ls (DeviceConnected dev) =
        (ls,
         [Log (Line [S ''Device '', S (address dev), S ''/'', S (addressType dev), S '' connected.'']),
          Call (GetServices (device_instanceId dev)),
          Log (Logged (Error
            [S ''Did not discover the blinky service in peripheral's GATT attribute table.''])),
          Exit 1]))
   \<and> (getServices_result ad (device_instanceId dev) = Inr ss \<longrightarrow>
      BLE_UUID_NUS_SERVICE \<notin> uuid ` set ss \<longrightarrow>
      handleConnectedDevice ad ne dev =
        [Call (GetServices (device_instanceId dev)),
         Log (Logged (Error
           [S ''Did not discover the NUS service in peripheral's GATT attribute table.''])),
         Exit 1])
   \<and> (getServices_result ad (device_instanceId dev) = Inr ss \<longrightarrow> i < length ss \<longrightarrow>
      uuid (ss ! i) = BLE_UUID_BLINKY_SERVICE \<longrightarrow>
      (\<forall>j<i. uuid (ss ! j) \<noteq> BLE_UUID_BLINKY_SERVICE) \<longrightarrow>
      snd (discoverBlinkyService ad dev) = Inr (ss ! i))
   \<and> (getServices_result ad (device_instanceId dev) = Inr ss \<longrightarrow> i < length ss \<longrightarrow>
      uuid (ss ! i) = BLE_UUID_NUS_SERVICE \<longrightarrow>
      (\<forall>j<i. uuid (ss ! j) \<noteq> BLE_UUID_NUS_SERVICE) \<longrightarrow>
      snd (discoverNusService ad dev) = Inr (ss ! i))
   \<and> (snd (discoverBlinkyService ad dev) = Inr s \<longrightarrow>
      snd (discoverButtonCharacteristic ad s) = Inl err \<longrightarrow>
      addAdapterListener_blinky ad ls (DeviceConnected dev) =
        (ls,
         [Log (Line [S ''Device '', S (address dev), S ''/'', S (addressType dev), S '' connected.'']),
          Call (GetServices (device_instanceId dev)),
          Log (Line [S ''Discovered the blinky service.'']),
          Call (GetCharacteristics (instanceId s)),
          Log (Logged err), Exit 1]))
   \<and> (snd (discoverBlinkyService ad dev) = Inr s \<longrightarrow>
      snd (discoverButtonCharacteristic ad s) = Inr c \<longrightarrow>
      snd (discoverButtonCharCCCD ad c) = Inl err \<longrightarrow>
      addAdapterListener_blinky ad ls (DeviceConnected dev) =
        (ls,
         [Log (Line [S ''Device '', S (address dev), S ''/'', S (addressType dev), S '' connected.'']),
          Call (GetServices (device_instanceId dev)),
          Log (Line [S ''Discovered the blinky service.'']),
          Call (GetCharacteristics (instanceId s)),
          Log (Line [S ''Discovered the blinky button characteristic.'']),
          Call (GetDescriptors (instanceId c)),
          Log (Logged err), Exit 1]))
   \<and> (snd (discoverNusService ad dev) = Inr s \<longrightarrow>
      snd (discoverTxCharacteristic ad s) = Inl err \<longrightarrow>
      handleConnectedDevice ad ne dev =
        [Call (GetServices (device_instanceId dev)),
         Log (Line [S ''Discovered the NUS service.'']),
         Call (GetCharacteristics (instanceId s)),
         Log (Logged err), Exit 1])
   \<and> (snd (discoverNusService ad dev) = Inr s \<longrightarrow>
      snd (discoverTxCharacteristic ad s) = Inr c \<longrightarrow>
      snd (discoverTxCharCCCD ad c) = Inl err \<longrightarrow>
      handleConnectedDevice ad ne dev =
        [Call (GetServices (device_instanceId dev)),
         Log (Line [S ''Discovered the NUS service.'']),
         Call (GetCharacteristics (instanceId s)),
         Log (Line [S ''Discovered the NUS TX characteristic.'']),
         Call (GetDescriptors (instanceId c)),
         Log (Logged err), Exit 1])"
proof (intro conjI impI)
  assume "getServices_result ad (device_instanceId dev) = Inl e"
  then show "addAdapterListener_blinky ad ls (DeviceConnected dev) =
        (ls,
         [Log (Line [S ''Device '', S (address dev), S ''/'', S (addressType dev), S '' connected.'']),
          Call (GetServices (device_instanceId dev)),
          Log (Logged (Error [S ''Error discovering the blinky service: '', E e, S ''.''])),
          Exit 1])"
    by (simp add: deviceConnected_blinky_service_rejected discoverBlinkyService_error)
next
  assume "getServices_result ad (device_instanceId dev) = Inl e"
  then show "handleConnectedDevice ad ne dev =
        [Call (GetServices (device_instanceId dev)),
         Log (Logged (Error [S ''Error discovering the NUS service: '', E e, S ''.''])),
         Exit 1]"
    by (simp add: handleConnectedDevice_service_rejected discoverNusService_error)
next
  assume "getServices_result ad (device_instanceId dev) = Inr ss"
    and "BLE_UUID_BLINKY_SERVICE \<notin> uuid ` set ss"
  then show "addAdapterListener_blinky ad ls (DeviceConnected dev) =
        (ls,
         [Log (Line [S ''Device '', S (address dev), S ''/'', S (addressType dev), S '' connected.'']),
          Call (GetServices (device_instanceId dev)),
          Log (Logged (Error
            [S ''Did not discover the blinky service in peripheral's GATT attribute table.''])),
          Exit 1])"
    by (simp add: deviceConnected_blinky_service_rejected discoverBlinkyService_absent)
next
  assume "getServices_result ad (device_instanceId dev) = Inr ss"
    and "BLE_UUID_NUS_SERVICE \<notin> uuid ` set ss"
  then show "handleConnectedDevice ad ne dev =
        [Call (GetServices (device_instanceId dev)),
         Log (Logged (Error
           [S ''Did not discover the NUS service in peripheral's GATT attribute table.''])),
         Exit 1]"
    by (simp add: handleConnectedDevice_service_rejected discoverNusService_absent)
next
  assume "getServices_result ad (device_instanceId dev) = Inr ss" "i < length ss"
    "uuid (ss ! i) = BLE_UUID_BLINKY_SERVICE" "\<forall>j<i. uuid (ss ! j) \<noteq> BLE_UUID_BLINKY_SERVICE"
  then show "snd (discoverBlinkyService ad dev) = Inr (ss ! i)"
    by (rule discoverBlinkyService_first)
next
  assume "getServices_result ad (device_instanceId dev) = Inr ss" "i < length ss"
    "uuid (ss ! i) = BLE_UUID_NUS_SERVICE" "\<forall>j<i. uuid (ss ! j) \<noteq> BLE_UUID_NUS_SERVICE"
  then show "snd (discoverNusService ad dev) = Inr (ss ! i)"
    by (rule discoverNusService_first)
next
  assume "snd (discoverBlinkyService ad dev) = Inr s"
    "snd (discoverButtonCharacteristic ad s) = Inl err"
  then show "addAdapterListener_blinky ad ls (DeviceConnected dev) =
        (ls,
         [Log (Line [S ''Device '', S (address dev), S ''/'', S (addressType dev), S '' connected.'']),
          Call (GetServices (device_instanceId dev)),
          Log (Line [S ''Discovered the blinky service.'']),
          Call (GetCharacteristics (instanceId s)),
          Log (Logged err), Exit 1])"
    by (simp add: deviceConnected_blinky_characteristic_rejected)
next
  assume "snd (discoverBlinkyService ad dev) = Inr s"
    "snd (discoverButtonCharacteristic ad s) = Inr c"
    "snd (discoverButtonCharCCCD ad c) = Inl err"
  then show "addAdapterListener_blinky ad ls (DeviceConnected dev) =
        (ls,
         [Log (Line [S ''Device '', S (address dev), S ''/'', S (addressType dev), S '' connected.'']),
          Call (GetServices (device_instanceId dev)),
          Log (Line [S ''Discovered the blinky service.'']),
          Call (GetCharacteristics (instanceId s)),
          Log (Line [S ''Discovered the blinky button characteristic.'']),
          Call (GetDescriptors (instanceId c)),
          Log (Logged err), Exit 1])"
    by (simp add: deviceConnected_blinky_descriptor_rejected)
next
  assume "snd (discoverNusService ad dev) = Inr s"
    "snd (discoverTxCharacteristic ad s) = Inl err"
  then show "handleConnectedDevice ad ne dev =
        [Call (GetServices (device_instanceId dev)),
         Log (Line [S ''Discovered the NUS service.'']),
         Call (GetCharacteristics (instanceId s)),
         Log (Logged err), Exit 1]"
    by (rule handleConnectedDevice_characteristic_rejected)
next
  assume "snd (discoverNusService ad dev) = Inr s"
    "snd (discoverTxCharacteristic ad s) = Inr c"
    "snd (discoverTxCharCCCD ad c) = Inl err"
  then show "handleConnectedDevice ad ne dev =
        [Call (GetServices (device_instanceId dev)),
         Log (Line [S ''Discovered the NUS service.'']),
         Call (GetCharacteristics (instanceId s)),
         Log (Line [S ''Discovered the NUS TX characteristic.'']),
         Call (GetDescriptors (instanceId c)),
         Log (Logged err), Exit 1]"
    by (rule handleConnectedDevice_descriptor_rejected)
qed

theorem discovery_failure_is_fatal_witness:
  "addAdapterListener_blinky failing_adapter [] (DeviceConnected blinky_device) =
     ([],
      [Log (Line [S ''Device '', S ''C0FFEE000002'', S ''/'', S ''BLE_GAP_ADDR_TYPE_RANDOM_STATIC'',
                  S '' connected.'']),
       Call (GetServices ''dev1''),
       Log (Logged (Error [S ''Error discovering the blinky service: '', E ''NRF_ERROR_TIMEOUT'',
                           S ''.''])),
       Exit 1])
   \<and> handleConnectedDevice nus_peripheral [1, 0] blinky_device =
     [Call (GetServices ''dev1''),
      Log (Logged (Error [S ''Error discovering the NUS service: '', E ''unknown device'', S ''.''])),
      Exit 1]
   \<and> addAdapterListener_blinky nus_peripheral [] (DeviceConnected nus_device) =
     ([],
      [Log (Line [S ''Device '', S ''C0FFEE000001'', S ''/'', S ''BLE_GAP_ADDR_TYPE_RANDOM_STATIC'',
                  S '' connected.'']),
       Call (GetServices ''dev0''),
       Log (Logged (Error
         [S ''Did not discover the blinky service in peripheral's GATT attribute table.''])),
       Exit 1])
   \<and> handleConnectedDevice blinky_peripheral [1, 0] blinky_device =
     [Call (GetServices ''dev1''),
      Log (Logged (Error
        [S ''Did not discover the NUS service in peripheral's GATT attribute table.''])),
      Exit 1]
   \<and> snd (discoverBlinkyService blinky_peripheral blinky_device) =
     Inr \<lparr>instanceId = ''dev1.2'', uuid = ''000015231212EFDE1523785FEABCD123''\<rparr>
   \<and> snd (discoverNusService nus_peripheral nus_device) =
     Inr \<lparr>instanceId = ''dev0.2'', uuid = ''6E400001B5A3F393E0A9E50E24DCCA9E''\<rparr>
   \<and> addAdapterListener_blinky
        (blinky_peripheral\<lparr>getCharacteristics_result := \<lambda>_. Inr []\<rparr>) []
        (DeviceConnected blinky_device) =
     ([],
      [Log (Line [S ''Device '', S ''C0FFEE000002'', S ''/'', S ''BLE_GAP_ADDR_TYPE_RANDOM_STATIC'',
                  S '' connected.'']),
       Call (GetServices ''dev1''),
       Log (Line [S ''Discovered the blinky service.'']),
       Call (GetCharacteristics ''dev1.2''),
       Log (Logged (Error
         [S ''Did not discover the blinky button char in peripheral's GATT attribute table.''])),
       Exit 1])
   \<and> handleConnectedDevice
        (nus_peripheral\<lparr>getDescriptors_result := \<lambda>_. Inl ''NRF_ERROR_TIMEOUT''\<rparr>) [1, 0]
        nus_device =
     [Call (GetServices ''dev0''),
      Log (Line [S ''Discovered the NUS service.'']),
      Call (GetCharacteristics ''dev0.2''),
      Log (Line [S ''Discovered the NUS TX characteristic.'']),
      Call (GetDescriptors ''dev0.2.2''),
      Log (Logged (Error
        [S ''Error discovering the NUS characteristic's CCCD: '', JE ''NRF_ERROR_TIMEOUT'', S ''.''])),
      Exit 1]"
proof -
  note defs = failing_adapter_def nus_peripheral_def blinky_peripheral_def nus_device_def
    blinky_device_def BLE_UUID_BLINKY_SERVICE_def BLE_UUID_NUS_SERVICE_def
    LBS_UUID_BLINKY_BUTTON_CHAR_def LBS_UUID_NUS_TX_CHAR_def BLE_UUID_CCCD_def
    discoverBlinkyService_def discoverButtonCharacteristic_def discoverButtonCharCCCD_def
    discoverNusService_def discoverTxCharacteristic_def discoverTxCharCCCD_def
  have 1: "addAdapterListener_blinky failing_adapter [] (DeviceConnected blinky_device) =
     ([],
      [Log (Line [S ''Device '', S (address blinky_device), S ''/'', S (addressType blinky_device),
                  S '' connected.'']),
       Call (GetServices (device_instanceId blinky_device)),
       Log (Logged (Error [S ''Error discovering the blinky service: '', E ''NRF_ERROR_TIMEOUT'',
                           S ''.''])),
       Exit 1])"
    using discovery_failure_is_fatal [where ad = failing_adapter
        and dev = blinky_device and e = "''NRF_ERROR_TIMEOUT''" and ls = "[]",
        THEN conjunct1]
    by (simp add: failing_adapter_def)
  have 2: "handleConnectedDevice nus_peripheral [1, 0] blinky_device =
     [Call (GetServices (device_instanceId blinky_device)),
      Log (Logged (Error [S ''Error discovering the NUS service: '', E ''unknown device'', S ''.''])),
      Exit 1]"
    using discovery_failure_is_fatal [where ad = nus_peripheral
        and dev = blinky_device and e = "''unknown device''" and ne = "[1, 0]",
        THEN conjunct1]
    by (simp add: nus_peripheral_def blinky_device_def)
  have 3: "addAdapterListener_blinky nus_peripheral [] (DeviceConnected nus_device) =
     ([],
      [Log (Line [S ''Device '', S (address nus_device), S ''/'', S (addressType nus_device),
                  S '' connected.'']),
       Call (GetServices (device_instanceId nus_device)),
       Log (Logged (Error
         [S ''Did not discover the blinky service in peripheral's GATT attribute table.''])),
       Exit 1])"
    using discovery_failure_is_fatal [where ad = nus_peripheral
        and dev = nus_device and ls = "[]"
        and ss = "[\<lparr>instanceId = ''dev0.1'', uuid = ''1800''\<rparr>,
                   \<lparr>instanceId = ''dev0.2'', uuid = ''6E400001B5A3F393E0A9E50E24DCCA9E''\<rparr>]",
        THEN conjunct2, THEN conjunct1]
    by (simp add: nus_peripheral_def nus_device_def BLE_UUID_BLINKY_SERVICE_def)
  have 4: "handleConnectedDevice blinky_peripheral [1, 0] blinky_device =
     [Call (GetServices (device_instanceId blinky_device)),
      Log (Logged (Error
        [S ''Did not discover the NUS service in peripheral's GATT attribute table.''])),
      Exit 1]"
    using discovery_failure_is_fatal [where ad = blinky_peripheral and dev = blinky_device and ne = "[1, 0]"
        and ss = "[\<lparr>instanceId = ''dev1.1'', uuid = ''1800''\<rparr>,
                   \<lparr>instanceId = ''dev1.2'', uuid = ''000015231212EFDE1523785FEABCD123''\<rparr>]",
        THEN conjunct2, THEN conjunct2, THEN conjunct1]
    by (simp add: blinky_peripheral_def blinky_device_def BLE_UUID_NUS_SERVICE_def)
  have 5: "snd (discoverBlinkyService blinky_peripheral blinky_device) =
     Inr \<lparr>instanceId = ''dev1.2'', uuid = ''000015231212EFDE1523785FEABCD123''\<rparr>"
    using discovery_failure_is_fatal [where ad = blinky_peripheral and dev = blinky_device and i = 1
        and ss = "[\<lparr>instanceId = ''dev1.1'', uuid = ''1800''\<rparr>,
                   \<lparr>instanceId = ''dev1.2'', uuid = ''000015231212EFDE1523785FEABCD123''\<rparr>]",
        THEN conjunct2, THEN conjunct2, THEN conjunct2, THEN conjunct1]
    by (simp add: blinky_peripheral_def blinky_device_def BLE_UUID_BLINKY_SERVICE_def)
  have 6: "snd (discoverNusService nus_peripheral nus_device) =
     Inr \<lparr>instanceId = ''dev0.2'', uuid = ''6E400001B5A3F393E0A9E50E24DCCA9E''\<rparr>"
    using discovery_failure_is_fatal [where ad = nus_peripheral and dev = nus_device and i = 1
        and ss = "[\<lparr>instanceId = ''dev0.1'', uuid = ''1800''\<rparr>,
                   \<lparr>instanceId = ''dev0.2'', uuid = ''6E400001B5A3F393E0A9E50E24DCCA9E''\<rparr>]",
        THEN conjunct2, THEN conjunct2, THEN conjunct2, THEN conjunct2, THEN conjunct1]
    by (simp add: nus_peripheral_def nus_device_def BLE_UUID_NUS_SERVICE_def)
  have 7: "addAdapterListener_blinky
        (blinky_peripheral\<lparr>getCharacteristics_result := \<lambda>_. Inr []\<rparr>) []
        (DeviceConnected blinky_device) =
     ([],
      [Log (Line [S ''Device '', S (address blinky_device), S ''/'', S (addressType blinky_device),
                  S '' connected.'']),
       Call (GetServices (device_instanceId blinky_device)),
       Log (Line [S ''Discovered the blinky service.'']),
       Call (GetCharacteristics ''dev1.2''),
       Log (Logged (Error
         [S ''Did not discover the blinky button char in peripheral's GATT attribute table.''])),
       Exit 1])"
    using discovery_failure_is_fatal [where ad = "blinky_peripheral\<lparr>getCharacteristics_result := \<lambda>_. Inr []\<rparr>"
        and dev = blinky_device and ls = "[]"
        and s = "\<lparr>instanceId = ''dev1.2'', uuid = ''000015231212EFDE1523785FEABCD123''\<rparr>"
        and err = "Error
         [S ''Did not discover the blinky button char in peripheral's GATT attribute table.'']",
        THEN conjunct2, THEN conjunct2, THEN conjunct2, THEN conjunct2, THEN conjunct2, THEN conjunct1]
    by (simp add: defs)
  have 8: "handleConnectedDevice
        (nus_peripheral\<lparr>getDescriptors_result := \<lambda>_. Inl ''NRF_ERROR_TIMEOUT''\<rparr>) [1, 0]
        nus_device =
     [Call (GetServices (device_instanceId nus_device)),
      Log (Line [S ''Discovered the NUS service.'']),
      Call (GetCharacteristics ''dev0.2''),
      Log (Line [S ''Discovered the NUS TX characteristic.'']),
      Call (GetDescriptors ''dev0.2.2''),
      Log (Logged (Error
        [S ''Error discovering the NUS characteristic's CCCD: '', JE ''NRF_ERROR_TIMEOUT'', S ''.''])),
      Exit 1]"
    using discovery_failure_is_fatal [where ad = "nus_peripheral\<lparr>getDescriptors_result := \<lambda>_. Inl ''NRF_ERROR_TIMEOUT''\<rparr>"
        and dev = nus_device and ne = "[1, 0]"
        and s = "\<lparr>instanceId = ''dev0.2'', uuid = ''6E400001B5A3F393E0A9E50E24DCCA9E''\<rparr>"
        and c = "\<lparr>instanceId = ''dev0.2.2'', uuid = ''6E400003B5A3F393E0A9E50E24DCCA9E''\<rparr>"
        and err = "Error
        [S ''Error discovering the NUS characteristic's CCCD: '', JE ''NRF_ERROR_TIMEOUT'', S ''.'']",
        THEN conjunct2, THEN conjunct2, THEN conjunct2, THEN conjunct2, THEN conjunct2, THEN conjunct2, THEN conjunct2, THEN conjunct2]
    by (simp add: defs)
  show ?thesis
    unfolding 1 2 3 4 5 6 7 8 by (simp add: nus_device_def blinky_device_def)
qed

text \<open>
  C4. The toggle is the last branch of the keystroke callback: any key but \<^verbatim>\<open>q\<close>,
  \<^verbatim>\<open>Q\<close>, \<^verbatim>\<open>l\<close>, \<^verbatim>\<open>L\<close> in the Blinky central, any key but \<^verbatim>\<open>q\<close>, \<^verbatim>\<open>Q\<close> in the
  callback the UART file defines. From either notification state, \<^verbatim>\<open>[0, 0]\<close> or
  \<^verbatim>\<open>[1, 0]\<close>, two toggles in a row bring the state back to where it was; each issues
  one descriptor write to the CCCD without acknowledgement, the first with the
  complement of the starting value and the second with the starting value.
\<close>

theorem toggle_twice:
  assumes "notificationsEnabled l = [0, 0] \<or> notificationsEnabled l = [1, 0]"
    and "ne = [0, 0] \<or> ne = [1, 0]"
    and "first_char k1 \<notin> {Some CHR ''q'', Some CHR ''Q'', Some CHR ''l'', Some CHR ''L''}"
    and "first_char k2 \<notin> {Some CHR ''q'', Some CHR ''Q'', Some CHR ''l'', Some CHR ''L''}"
    and "first_char n1 \<notin> {Some CHR ''q'', Some CHR ''Q''}"
    and "first_char n2 \<notin> {Some CHR ''q'', Some CHR ''Q''}"
  shows "fst (readable_blinky ad2 (fst (readable_blinky ad1 l (Some k1))) (Some k2)) = l
       \<and> calls (snd (readable_blinky ad1 l (Some k1))) =
           [WriteDescriptorValue (instanceId (cccdDescriptor l))
              (if notificationsEnabled l = [0, 0] then [1, 0] else [0, 0]) False]
       \<and> calls (snd (readable_blinky ad2 (fst (readable_blinky ad1 l (Some k1))) (Some k2))) =
           [WriteDescriptorValue (instanceId (cccdDescriptor l)) (notificationsEnabled l) False]
       \<and> fst (readable_nus ad2 cccd (fst (readable_nus ad1 cccd ne (Some n1))) (Some n2)) = ne
       \<and> calls (snd (readable_nus ad1 cccd ne (Some n1))) =
           [WriteDescriptorValue (instanceId cccd) (if ne = [0, 0] then [1, 0] else [0, 0]) False]
       \<and> calls (snd (readable_nus ad2 cccd (fst (readable_nus ad1 cccd ne (Some n1))) (Some n2))) =
           [WriteDescriptorValue (instanceId cccd) ne False]"
proof -
  from assms(1) have "fst (readable_blinky ad2 (fst (readable_blinky ad1 l (Some k1))) (Some k2)) = l"
    by (auto simp add: readable_blinky_toggle [OF assms(3)] readable_blinky_toggle [OF assms(4)])
  moreover from assms(1) have "calls (snd (readable_blinky ad1 l (Some k1))) =
           [WriteDescriptorValue (instanceId (cccdDescriptor l))
              (if notificationsEnabled l = [0, 0] then [1, 0] else [0, 0]) False]"
    by (auto simp add: readable_blinky_toggle [OF assms(3)])
  moreover from assms(1)
  have "calls (snd (readable_blinky ad2 (fst (readable_blinky ad1 l (Some k1))) (Some k2))) =
           [WriteDescriptorValue (instanceId (cccdDescriptor l)) (notificationsEnabled l) False]"
    by (auto simp add: readable_blinky_toggle [OF assms(3)] readable_blinky_toggle [OF assms(4)])
  moreover from assms(2)
  have "fst (readable_nus ad2 cccd (fst (readable_nus ad1 cccd ne (Some n1))) (Some n2)) = ne"
    by (auto simp add: readable_nus_toggle [OF assms(5)] readable_nus_toggle [OF assms(6)])
  moreover from assms(2) have "calls (snd (readable_nus ad1 cccd ne (Some n1))) =
           [WriteDescriptorValue (instanceId cccd) (if ne = [0, 0] then [1, 0] else [0, 0]) False]"
    by (auto simp add: readable_nus_toggle [OF assms(5)])
  moreover from assms(2)
  have "calls (snd (readable_nus ad2 cccd (fst (readable_nus ad1 cccd ne (Some n1))) (Some n2))) =
           [WriteDescriptorValue (instanceId cccd) ne False]"
    by (auto simp add: readable_nus_toggle [OF assms(5)] readable_nus_toggle [OF assms(6)])
  ultimately show ?thesis by simp
qed

theorem toggle_twice_witness:
  "calls (snd (readable_blinky blinky_peripheral
       \<lparr>cccdDescriptor = \<lparr>instanceId = ''dev1.2.1.2'', uuid = ''2902''\<rparr>,
        notificationsEnabled = [0, 0]\<rparr> (Some ''n''))) =
     [WriteDescriptorValue ''dev1.2.1.2'' [1, 0] False]
   \<and> calls (snd (readable_blinky blinky_peripheral
       (fst (readable_blinky blinky_peripheral
          \<lparr>cccdDescriptor = \<lparr>instanceId = ''dev1.2.1.2'', uuid = ''2902''\<rparr>,
           notificationsEnabled = [0, 0]\<rparr> (Some ''n''))) (Some ''n''))) =
     [WriteDescriptorValue ''dev1.2.1.2'' [0, 0] False]
   \<and> fst (readable_blinky blinky_peripheral
       (fst (readable_blinky blinky_peripheral
          \<lparr>cccdDescriptor = \<lparr>instanceId = ''dev1.2.1.2'', uuid = ''2902''\<rparr>,
           notificationsEnabled = [0, 0]\<rparr> (Some ''n''))) (Some ''n'')) =
     \<lparr>cccdDescriptor = \<lparr>instanceId = ''dev1.2.1.2'', uuid = ''2902''\<rparr>,
      notificationsEnabled = [0, 0]\<rparr>
   \<and> calls (snd (readable_nus nus_peripheral \<lparr>instanceId = ''dev0.2.2.2'', uuid = ''2902''\<rparr>
       [1, 0] (Some ''s''))) =
     [WriteDescriptorValue ''dev0.2.2.2'' [0, 0] False]
   \<and> calls (snd (readable_nus nus_peripheral \<lparr>instanceId = ''dev0.2.2.2'', uuid = ''2902''\<rparr>
       (fst (readable_nus nus_peripheral \<lparr>instanceId = ''dev0.2.2.2'', uuid = ''2902''\<rparr>
          [1, 0] (Some ''s''))) (Some ''s''))) =
     [WriteDescriptorValue ''dev0.2.2.2'' [1, 0] False]
   \<and> fst (readable_nus nus_peripheral \<lparr>instanceId = ''dev0.2.2.2'', uuid = ''2902''\<rparr>
       (fst (readable_nus nus_peripheral \<lparr>instanceId = ''dev0.2.2.2'', uuid = ''2902''\<rparr>
          [1, 0] (Some ''s''))) (Some ''s'')) = [1, 0]"
  using toggle_twice [where l = "\<lparr>cccdDescriptor = \<lparr>instanceId = ''dev1.2.1.2'', uuid = ''2902''\<rparr>,
        notificationsEnabled = [0, 0]\<rparr>" and ne = "[1, 0]" and ?k1.0 = "''n''" and ?k2.0 = "''n''"
      and ?n1.0 = "''s''" and ?n2.0 = "''s''" and ?ad1.0 = blinky_peripheral
      and ?ad2.0 = blinky_peripheral and cccd = "\<lparr>instanceId = ''dev0.2.2.2'', uuid = ''2902''\<rparr>"]
    toggle_twice [where l = "\<lparr>cccdDescriptor = \<lparr>instanceId = ''dev1.2.1.2'', uuid = ''2902''\<rparr>,
        notificationsEnabled = [0, 0]\<rparr>" and ne = "[1, 0]" and ?k1.0 = "''n''" and ?k2.0 = "''n''"
      and ?n1.0 = "''s''" and ?n2.0 = "''s''" and ?ad1.0 = nus_peripheral
      and ?ad2.0 = nus_peripheral and cccd = "\<lparr>instanceId = ''dev0.2.2.2'', uuid = ''2902''\<rparr>"]
  by simp

text \<open>
  C10. In the Blinky central a keystroke \<^verbatim>\<open>l\<close> or \<^verbatim>\<open>L\<close> causes no effect at all and
  leaves the callback's state as it was, although the prompt logged after discovery
  offers it for toggling the LED. A keystroke \<^verbatim>\<open>q\<close> or \<^verbatim>\<open>Q\<close> issues only the close
  request and leaves the state; every other keystroke flips the notification state and
  issues one descriptor write with the new value to the CCCD; a \<^verbatim>\<open>null\<close> read does
  nothing.
\<close>

theorem led_keystroke_is_noop:
  "(first_char k = Some CHR ''l'' \<or> first_char k = Some CHR ''L'' \<longrightarrow>
      readable_blinky ad l (Some k) = (l, []))
   \<and> (first_char k \<notin> {Some CHR ''q'', Some CHR ''Q'', Some CHR ''l'', Some CHR ''L''} \<longrightarrow>
      notificationsEnabled (fst (readable_blinky ad l (Some k))) \<noteq> notificationsEnabled l
      \<and> (notificationsEnabled l = [0, 0] \<longrightarrow>
           notificationsEnabled (fst (readable_blinky ad l (Some k))) = [1, 0])
      \<and> (notificationsEnabled l = [1, 0] \<longrightarrow>
           notificationsEnabled (fst (readable_blinky ad l (Some k))) = [0, 0])
      \<and> cccdDescriptor (fst (readable_blinky ad l (Some k))) = cccdDescriptor l
      \<and> calls (snd (readable_blinky ad l (Some k))) =
          [WriteDescriptorValue (instanceId (cccdDescriptor l))
             (notificationsEnabled (fst (readable_blinky ad l (Some k)))) False])
   \<and> (first_char k = Some CHR ''q'' \<or> first_char k = Some CHR ''Q'' \<longrightarrow>
      fst (readable_blinky ad l (Some k)) = l
      \<and> calls (snd (readable_blinky ad l (Some k))) = [Close])
   \<and> readable_blinky ad l None = (l, [])
   \<and> (snd (discoverBlinkyService ad dev) = Inr s \<longrightarrow>
      snd (discoverButtonCharacteristic ad s) = Inr c \<longrightarrow>
      snd (discoverButtonCharCCCD ad c) = Inr d \<longrightarrow>
      Line [S ''Press `l` or `L` to toggle LED on and off.''] \<in>
        set (logged (snd (addAdapterListener_blinky ad ls (DeviceConnected dev)))))"
proof (intro conjI impI)
  assume "first_char k = Some CHR ''l'' \<or> first_char k = Some CHR ''L''"
  then show "readable_blinky ad l (Some k) = (l, [])"
    by (rule readable_blinky_led)
next
  assume k: "first_char k \<notin> {Some CHR ''q'', Some CHR ''Q'', Some CHR ''l'', Some CHR ''L''}"
  show "notificationsEnabled (fst (readable_blinky ad l (Some k))) \<noteq> notificationsEnabled l"
    using set0_flips [of "notificationsEnabled l"] by (simp add: readable_blinky_toggle [OF k])
  show "notificationsEnabled (fst (readable_blinky ad l (Some k))) = [1, 0]"
    if "notificationsEnabled l = [0, 0]"
    using that by (simp add: readable_blinky_toggle [OF k])
  show "notificationsEnabled (fst (readable_blinky ad l (Some k))) = [0, 0]"
    if "notificationsEnabled l = [1, 0]"
    using that by (simp add: readable_blinky_toggle [OF k])
  show "cccdDescriptor (fst (readable_blinky ad l (Some k))) = cccdDescriptor l"
    by (simp add: readable_blinky_toggle [OF k])
  show "calls (snd (readable_blinky ad l (Some k))) =
          [WriteDescriptorValue (instanceId (cccdDescriptor l))
             (notificationsEnabled (fst (readable_blinky ad l (Some k)))) False]"
    by (simp add: readable_blinky_toggle [OF k])
next
  assume q: "first_char k = Some CHR ''q'' \<or> first_char k = Some CHR ''Q''"
  show "fst (readable_blinky ad l (Some k)) = l" by (rule readable_blinky_quit [OF q])
  show "calls (snd (readable_blinky ad l (Some k))) = [Close]" by (rule readable_blinky_quit [OF q])
next
  show "readable_blinky ad l None = (l, [])" by (simp add: readable_blinky_def)
next
  assume "snd (discoverBlinkyService ad dev) = Inr s"
    "snd (discoverButtonCharacteristic ad s) = Inr c"
    "snd (discoverButtonCharCCCD ad c) = Inr d"
  then show "Line [S ''Press `l` or `L` to toggle LED on and off.''] \<in>
        set (logged (snd (addAdapterListener_blinky ad ls (DeviceConnected dev))))"
    by (simp add: deviceConnected_blinky_discovered)
qed

theorem led_keystroke_is_noop_witness:
  "readable_blinky blinky_peripheral
     \<lparr>cccdDescriptor = \<lparr>instanceId = ''dev1.2.1.2'', uuid = ''2902''\<rparr>,
      notificationsEnabled = [0, 0]\<rparr> (Some ''l'') =
     (\<lparr>cccdDescriptor = \<lparr>instanceId = ''dev1.2.1.2'', uuid = ''2902''\<rparr>,
       notificationsEnabled = [0, 0]\<rparr>, [])
   \<and> readable_blinky blinky_peripheral
     \<lparr>cccdDescriptor = \<lparr>instanceId = ''dev1.2.1.2'', uuid = ''2902''\<rparr>,
      notificationsEnabled = [1, 0]\<rparr> (Some ''L'') =
     (\<lparr>cccdDescriptor = \<lparr>instanceId = ''dev1.2.1.2'', uuid = ''2902''\<rparr>,
       notificationsEnabled = [1, 0]\<rparr>, [])
   \<and> fst (readable_blinky blinky_peripheral
     \<lparr>cccdDescriptor = \<lparr>instanceId = ''dev1.2.1.2'', uuid = ''2902''\<rparr>,
      notificationsEnabled = [0, 0]\<rparr> (Some ''x'')) =
     \<lparr>cccdDescriptor = \<lparr>instanceId = ''dev1.2.1.2'', uuid = ''2902''\<rparr>,
      notificationsEnabled = [1, 0]\<rparr>
   \<and> calls (snd (readable_blinky blinky_peripheral
     \<lparr>cccdDescriptor = \<lparr>instanceId = ''dev1.2.1.2'', uuid = ''2902''\<rparr>,
      notificationsEnabled = [0, 0]\<rparr> (Some ''x''))) =
     [WriteDescriptorValue ''dev1.2.1.2'' [1, 0] False]
   \<and> calls (snd (readable_blinky blinky_peripheral
     \<lparr>cccdDescriptor = \<lparr>instanceId = ''dev1.2.1.2'', uuid = ''2902''\<rparr>,
      notificationsEnabled = [0, 0]\<rparr> (Some ''q''))) = [Close]
   \<and> Line [S ''Press `l` or `L` to toggle LED on and off.''] \<in>
        set (logged (snd (addAdapterListener_blinky blinky_peripheral []
          (DeviceConnected blinky_device))))"
proof -
  let ?l = "\<lparr>cccdDescriptor = \<lparr>instanceId = ''dev1.2.1.2'', uuid = ''2902''\<rparr>,
      notificationsEnabled = [0, 0]\<rparr>"
  have 1: "readable_blinky blinky_peripheral ?l (Some ''l'') = (?l, [])"
    using led_keystroke_is_noop [where k = "''l''" and ad = blinky_peripheral and l = ?l] by simp
  have 2: "readable_blinky blinky_peripheral (?l\<lparr>notificationsEnabled := [1, 0]\<rparr>) (Some ''L'') =
      (?l\<lparr>notificationsEnabled := [1, 0]\<rparr>, [])"
    using led_keystroke_is_noop [where k = "''L''" and ad = blinky_peripheral
        and l = "?l\<lparr>notificationsEnabled := [1, 0]\<rparr>"] by simp
  have 3: "notificationsEnabled (fst (readable_blinky blinky_peripheral ?l (Some ''x''))) = [1, 0]
      \<and> cccdDescriptor (fst (readable_blinky blinky_peripheral ?l (Some ''x''))) = cccdDescriptor ?l
      \<and> calls (snd (readable_blinky blinky_peripheral ?l (Some ''x''))) =
          [WriteDescriptorValue (instanceId (cccdDescriptor ?l))
             (notificationsEnabled (fst (readable_blinky blinky_peripheral ?l (Some ''x'')))) False]"
    using led_keystroke_is_noop [where k = "''x''" and ad = blinky_peripheral and l = ?l] by simp
  have 4: "calls (snd (readable_blinky blinky_peripheral ?l (Some ''q''))) = [Close]"
    using led_keystroke_is_noop [where k = "''q''" and ad = blinky_peripheral and l = ?l] by simp
  have 5: "Line [S ''Press `l` or `L` to toggle LED on and off.''] \<in>
        set (logged (snd (addAdapterListener_blinky blinky_peripheral []
          (DeviceConnected blinky_device))))"
    using led_keystroke_is_noop [where ad = blinky_peripheral and dev = blinky_device
        and ls = "[]"
        and s = "\<lparr>instanceId = ''dev1.2'', uuid = ''000015231212EFDE1523785FEABCD123''\<rparr>"
        and c = "\<lparr>instanceId = ''dev1.2.1'', uuid = ''000015241212EFDE1523785FEABCD123''\<rparr>"
        and d = "\<lparr>instanceId = ''dev1.2.1.2'', uuid = ''2902''\<rparr>"]
      discover_blinky_peripheral
    by simp
  from 3 have flipped: "fst (readable_blinky blinky_peripheral ?l (Some ''x'')) =
      ?l\<lparr>notificationsEnabled := [1, 0]\<rparr>"
    by (cases "fst (readable_blinky blinky_peripheral ?l (Some ''x''))") simp
  from 1 2 3 flipped 4 5 show ?thesis by simp
qed

end
